theory Spec2Isabelle
  imports Main "HOL-Library.Sublist"
begin

section \<open>JavaScript values\<close>

text \<open>
  The server handles untyped data throughout: tool arguments, response bodies and message
  fields are whatever \<^verbatim>\<open>JSON.parse\<close> produced. A value is therefore a JSON value or
  \<^verbatim>\<open>undefined\<close>. An object is an association list, read with \<open>map_of\<close>.
  Numbers are integers: the code does no arithmetic, it only tests numbers for
  truthiness and prints them into URLs.
\<close>

datatype jsval =
    JUndef
  | JNull
  | JBool bool
  | JNum int
  | JStr string
  | JArr "jsval list"
  | JObj "(string \<times> jsval) list"

text \<open>Every exception of the code is an \<^verbatim>\<open>Error\<close>; only its message is ever read.\<close>

datatype js_error =
    TypeError string
  | SyntaxError string
  | FetchError string
  | Error string

fun message_of :: "js_error \<Rightarrow> string" where
  "message_of (TypeError m) = m"
| "message_of (SyntaxError m) = m"
| "message_of (FetchError m) = m"
| "message_of (Error m) = m"

text \<open>Truthiness, as tested by \<^verbatim>\<open>if (x)\<close>, \<^verbatim>\<open>!x\<close>, \<^verbatim>\<open>x || y\<close> and \<^verbatim>\<open>x && y\<close>.\<close>

fun truthy :: "jsval \<Rightarrow> bool" where
  "truthy JUndef = False"
| "truthy JNull = False"
| "truthy (JBool b) = b"
| "truthy (JNum n) = (n \<noteq> 0)"
| "truthy (JStr s) = (s \<noteq> [])"
| "truthy (JArr xs) = True"
| "truthy (JObj kvs) = True"

fun nullish :: "jsval \<Rightarrow> bool" where
  "nullish JUndef = True"
| "nullish JNull = True"
| "nullish v = False"

definition js_or :: "jsval \<Rightarrow> jsval \<Rightarrow> jsval" where
  "js_or a b = (if truthy a then a else b)"

text \<open>
  \<^verbatim>\<open>v.k\<close>: a \<^verbatim>\<open>TypeError\<close> on \<^verbatim>\<open>null\<close> and \<^verbatim>\<open>undefined\<close>, the binding of an
  object, \<^verbatim>\<open>undefined\<close> on anything else (none of the property names the code reads is a
  built-in property of a string, number, boolean or array).
\<close>

fun get_prop :: "jsval \<Rightarrow> string \<Rightarrow> js_error + jsval" where
  "get_prop JUndef k = Inl (TypeError (''Cannot read properties of undefined (reading '' @ k @ '')''))"
| "get_prop JNull k = Inl (TypeError (''Cannot read properties of null (reading '' @ k @ '')''))"
| "get_prop (JObj kvs) k = Inr (case map_of kvs k of Some v \<Rightarrow> v | None \<Rightarrow> JUndef)"
| "get_prop v k = Inr JUndef"

text \<open>\<^verbatim>\<open>v?.k\<close>: \<^verbatim>\<open>undefined\<close> where \<^verbatim>\<open>v.k\<close> would throw.\<close>

definition opt_prop :: "jsval \<Rightarrow> string \<Rightarrow> jsval" where
  "opt_prop v k = (case get_prop v k of Inl e \<Rightarrow> JUndef | Inr x \<Rightarrow> x)"

text \<open>\<^verbatim>\<open>v[0]\<close>.\<close>

fun index0 :: "jsval \<Rightarrow> js_error + jsval" where
  "index0 JUndef = Inl (TypeError ''Cannot read properties of undefined (reading 0)'')"
| "index0 JNull = Inl (TypeError ''Cannot read properties of null (reading 0)'')"
| "index0 (JArr xs) = Inr (case xs of [] \<Rightarrow> JUndef | x # _ \<Rightarrow> x)"
| "index0 (JStr s) = Inr (case s of [] \<Rightarrow> JUndef | c # _ \<Rightarrow> JStr [c])"
| "index0 (JObj kvs) = Inr (case map_of kvs ''0'' of Some v \<Rightarrow> v | None \<Rightarrow> JUndef)"
| "index0 v = Inr JUndef"

text \<open>Conversion to a string, as done by a template literal and by \<^verbatim>\<open>Array.prototype.join\<close>.\<close>

definition digit_char :: "nat \<Rightarrow> char" where
  "digit_char d = ''0123456789'' ! d"

fun show_nat :: "nat \<Rightarrow> string" where
  "show_nat n = (if n < 10 then [digit_char n] else show_nat (n div 10) @ [digit_char (n mod 10)])"

fun intercalate :: "string \<Rightarrow> string list \<Rightarrow> string" where
  "intercalate sep [] = []"
| "intercalate sep [x] = x"
| "intercalate sep (x # y # ys) = x @ sep @ intercalate sep (y # ys)"

fun js_to_string :: "jsval \<Rightarrow> string" where
  "js_to_string JUndef = ''undefined''"
| "js_to_string JNull = ''null''"
| "js_to_string (JBool b) = (if b then ''true'' else ''false'')"
| "js_to_string (JNum n) = (if n < 0 then CHR ''-'' # show_nat (nat (- n)) else show_nat (nat n))"
| "js_to_string (JStr s) = s"
| "js_to_string (JArr xs) =
     intercalate '','' (map (\<lambda>x. if nullish x then [] else js_to_string x) xs)"
| "js_to_string (JObj kvs) = ''[object Object]''"

text \<open>\<^verbatim>\<open>xs.join(sep)\<close> on an array.\<close>

definition js_join :: "string \<Rightarrow> jsval list \<Rightarrow> string" where
  "js_join sep xs = intercalate sep (map (\<lambda>x. if nullish x then [] else js_to_string x) xs)"

text \<open>
  \<^verbatim>\<open>encodeURIComponent\<close> on the UTF-8 bytes of a string: the unreserved characters stay,
  every other byte becomes \<^verbatim>\<open>%XX\<close>.
\<close>

definition hex_digit :: "nat \<Rightarrow> char" where
  "hex_digit d = ''0123456789ABCDEF'' ! d"

definition uri_unreserved :: "char \<Rightarrow> bool" where
  "uri_unreserved c =
     (c \<in> set ''ABCDEFGHIJKLMNOPQRSTUVWXYZabcdefghijklmnopqrstuvwxyz0123456789-_.!~*()''
      \<or> c = CHR 0x27)"

definition encodeURIComponent :: "string \<Rightarrow> string" where
  "encodeURIComponent s =
     concat (map (\<lambda>c. if uri_unreserved c then [c]
                       else [CHR ''%'', hex_digit (of_char c div 16), hex_digit (of_char c mod 16)]) s)"

section \<open>The integration registry and executor (services/tools)\<close>

record IntegrationFunction =
  fn_name :: string
  fn_description :: string
  fn_parameters :: "(string \<times> string) list"
  fn_category :: string

definition functions_catalog :: "IntegrationFunction list" where
  "functions_catalog = [
     \<lparr>fn_name = ''getEmails'', fn_description = ''Get emails from Gmail inbox'',
      fn_parameters = [(''query'', ''string?''), (''maxResults'', ''number?'')],
      fn_category = ''gmail''\<rparr>,
     \<lparr>fn_name = ''sendEmail'', fn_description = ''Send an email via Gmail'',
      fn_parameters = [(''to'', ''string''), (''subject'', ''string''), (''body'', ''string'')],
      fn_category = ''gmail''\<rparr>,
     \<lparr>fn_name = ''searchEmails'', fn_description = ''Search emails in Gmail'',
      fn_parameters = [(''query'', ''string'')],
      fn_category = ''gmail''\<rparr>,
     \<lparr>fn_name = ''getCalendarEvents'', fn_description = ''Get calendar events'',
      fn_parameters = [(''timeMin'', ''string?''), (''timeMax'', ''string?'')],
      fn_category = ''calendar''\<rparr>,
     \<lparr>fn_name = ''getTodayEvents'', fn_description = ''Get today's calendar events'',
      fn_parameters = [],
      fn_category = ''calendar''\<rparr>,
     \<lparr>fn_name = ''createCalendarEvent'', fn_description = ''Create a new calendar event'',
      fn_parameters = [(''summary'', ''string''), (''start'', ''string''), (''end'', ''string''),
                       (''description'', ''string?''), (''location'', ''string?'')],
      fn_category = ''calendar''\<rparr>,
     \<lparr>fn_name = ''updateCalendarEvent'', fn_description = ''Update an existing calendar event'',
      fn_parameters = [(''eventId'', ''string''), (''updates'', ''object'')],
      fn_category = ''calendar''\<rparr>,
     \<lparr>fn_name = ''deleteCalendarEvent'', fn_description = ''Delete a calendar event'',
      fn_parameters = [(''eventId'', ''string'')],
      fn_category = ''calendar''\<rparr>]"

text \<open>
  \<^verbatim>\<open>String.prototype.toLowerCase\<close> on bytes: the letters A to Z are mapped, every other
  byte is left alone. The catalog is plain ASCII, so a query with a character outside
  ASCII matches nothing, here as in the source.
\<close>

definition lower_char :: "char \<Rightarrow> char" where
  "lower_char c =
     (case map_of (zip ''ABCDEFGHIJKLMNOPQRSTUVWXYZ'' ''abcdefghijklmnopqrstuvwxyz'') c of
        Some l \<Rightarrow> l
      | None \<Rightarrow> c)"

definition toLowerCase :: "string \<Rightarrow> string" where
  "toLowerCase s = map lower_char s"

text \<open>\<^verbatim>\<open>s.includes(q)\<close>: \<open>q\<close> occurs in \<open>s\<close> at some position.\<close>

fun starts_with :: "string \<Rightarrow> string \<Rightarrow> bool" where
  "starts_with s [] = True"
| "starts_with [] (q # qs) = False"
| "starts_with (c # cs) (q # qs) = (c = q \<and> starts_with cs qs)"

fun str_includes :: "string \<Rightarrow> string \<Rightarrow> bool" where
  "str_includes [] q = (q = [])"
| "str_includes (c # cs) q = (starts_with (c # cs) q \<or> str_includes cs q)"

definition searchIntegrationFunction :: "string \<Rightarrow> IntegrationFunction list" where
  "searchIntegrationFunction query =
     (let queryLower = toLowerCase query in
      filter (\<lambda>fn. str_includes (toLowerCase (fn_name fn)) queryLower
                  \<or> str_includes (toLowerCase (fn_description fn)) queryLower
                  \<or> str_includes (toLowerCase (fn_category fn)) queryLower) functions_catalog)"

text \<open>
  A descriptor matches a query when its name, description or category contains the query
  as a contiguous substring, letter case ignored.
\<close>

definition matches_query :: "string \<Rightarrow> IntegrationFunction \<Rightarrow> bool" where
  "matches_query q fn =
     (sublist (toLowerCase q) (toLowerCase (fn_name fn))
      \<or> sublist (toLowerCase q) (toLowerCase (fn_description fn))
      \<or> sublist (toLowerCase q) (toLowerCase (fn_category fn)))"

text \<open>
  The executor calls the mail and calendar services of \<^verbatim>\<open>./gmail\<close> and
  \<^verbatim>\<open>./calendar\<close>. They are collaborators here: a call is recorded with its arguments
  (the user record is handed on unchanged and left out), and the services answer it with a
  value or an exception, knowing the calls made before.
\<close>

datatype service_call =
    Gmail_getEmails jsval jsval
  | Gmail_sendEmail jsval jsval jsval
  | Gmail_searchEmails jsval
  | Calendar_getEvents jsval jsval
  | Calendar_getTodayEvents
  | Calendar_createEvent jsval jsval jsval jsval jsval
  | Calendar_updateEvent jsval jsval
  | Calendar_deleteEvent jsval

type_synonym services = "service_call list \<Rightarrow> service_call \<Rightarrow> js_error + jsval"

definition call_service ::
  "services \<Rightarrow> service_call \<Rightarrow> service_call list \<Rightarrow> (js_error + jsval) \<times> service_call list" where
  "call_service svc c calls = (svc calls c, calls @ [c])"

definition missing :: "jsval \<Rightarrow> string \<Rightarrow> bool" where
  "missing parameters k = (\<not> truthy (opt_prop parameters k))"

definition callIntegrationFunction ::
  "services \<Rightarrow> string \<Rightarrow> jsval \<Rightarrow> service_call list \<Rightarrow> (js_error + jsval) \<times> service_call list" where
  "callIntegrationFunction svc fname parameters calls =
     (if find (\<lambda>f. fn_name f = fname) functions_catalog = None then
        (Inl (Error (''Function '' @ fname @ '' not found'')), calls)
      else if fname = ''getEmails'' then
        (case get_prop parameters ''query'' of
           Inl e \<Rightarrow> (Inl e, calls)
         | Inr _ \<Rightarrow>
             call_service svc
               (Gmail_getEmails (opt_prop parameters ''query'') (opt_prop parameters ''maxResults''))
               calls)
      else if fname = ''sendEmail'' then
        (case get_prop parameters ''to'' of
           Inl e \<Rightarrow> (Inl e, calls)
         | Inr _ \<Rightarrow>
             if missing parameters ''to'' \<or> missing parameters ''subject'' \<or> missing parameters ''body''
             then (Inl (Error ''Missing required parameters: to, subject, body''), calls)
             else call_service svc
                    (Gmail_sendEmail (opt_prop parameters ''to'') (opt_prop parameters ''subject'')
                       (opt_prop parameters ''body''))
                    calls)
      else if fname = ''searchEmails'' then
        (case get_prop parameters ''query'' of
           Inl e \<Rightarrow> (Inl e, calls)
         | Inr _ \<Rightarrow>
             if missing parameters ''query''
             then (Inl (Error ''Missing required parameter: query''), calls)
             else call_service svc (Gmail_searchEmails (opt_prop parameters ''query'')) calls)
      else if fname = ''getCalendarEvents'' then
        (case get_prop parameters ''timeMin'' of
           Inl e \<Rightarrow> (Inl e, calls)
         | Inr _ \<Rightarrow>
             call_service svc
               (Calendar_getEvents (opt_prop parameters ''timeMin'') (opt_prop parameters ''timeMax''))
               calls)
      else if fname = ''getTodayEvents'' then
        call_service svc Calendar_getTodayEvents calls
      else if fname = ''createCalendarEvent'' then
        (case get_prop parameters ''summary'' of
           Inl e \<Rightarrow> (Inl e, calls)
         | Inr _ \<Rightarrow>
             if missing parameters ''summary'' \<or> missing parameters ''start'' \<or> missing parameters ''end''
             then (Inl (Error ''Missing required parameters: summary, start, end''), calls)
             else call_service svc
                    (Calendar_createEvent (opt_prop parameters ''summary'')
                       (opt_prop parameters ''start'') (opt_prop parameters ''end'')
                       (opt_prop parameters ''description'') (opt_prop parameters ''location''))
                    calls)
      else if fname = ''updateCalendarEvent'' then
        (case get_prop parameters ''eventId'' of
           Inl e \<Rightarrow> (Inl e, calls)
         | Inr _ \<Rightarrow>
             if missing parameters ''eventId'' \<or> missing parameters ''updates''
             then (Inl (Error ''Missing required parameters: eventId, updates''), calls)
             else call_service svc
                    (Calendar_updateEvent (opt_prop parameters ''eventId'')
                       (opt_prop parameters ''updates''))
                    calls)
      else if fname = ''deleteCalendarEvent'' then
        (case get_prop parameters ''eventId'' of
           Inl e \<Rightarrow> (Inl e, calls)
         | Inr _ \<Rightarrow>
             if missing parameters ''eventId''
             then (Inl (Error ''Missing required parameter: eventId''), calls)
             else (case call_service svc (Calendar_deleteEvent (opt_prop parameters ''eventId'')) calls of
                     (Inl e, calls') \<Rightarrow> (Inl e, calls')
                   | (Inr _, calls') \<Rightarrow> (Inr (JObj [(''success'', JBool True)]), calls')))
      else (Inl (Error (''Function '' @ fname @ '' not implemented'')), calls))"

section \<open>The outside world (server/index.ts)\<close>

text \<open>
  Every effect of the server is an HTTP request made with \<^verbatim>\<open>fetch\<close>. A request is
  recorded before it is serialised: \<open>JsonBody v\<close> stands for the body
  \<^verbatim>\<open>JSON.stringify(v)\<close>, \<open>RawMail s\<close> for the body \<^verbatim>\<open>{raw: base64url(s)}\<close> of a Gmail send,
  and \<open>ChatBody msgs tools\<close> for a chat completion request with these messages and, when
  present, these tools (its model name, temperature and token limit are constants).
\<close>

datatype role = System | User | Assistant | Tool

record message =
  role :: role
  content :: jsval
  name :: jsval
  tool_calls :: jsval
  tool_call_id :: jsval

datatype http_method = GET | POST | PUT | DELETE

datatype req_body =
    NoBody
  | JsonBody jsval
  | RawMail string
  | ChatBody "message list" "jsval list option"

record request =
  url :: string
  http_method :: http_method
  authorization :: string
  body :: req_body

text \<open>
  A response carries its status and its body, as text and as \<^verbatim>\<open>response.json()\<close> reads
  it: \<open>None\<close> when the body is not valid JSON, in which case \<^verbatim>\<open>response.json()\<close> rejects.
\<close>

record response =
  status :: nat
  statusText :: string
  body_text :: string
  body_json :: "jsval option"

definition ok :: "response \<Rightarrow> bool" where
  "ok r = (200 \<le> status r \<and> status r \<le> 299)"

datatype fetch_outcome = Threw js_error | Responded response

text \<open>
  The world answers each request, knowing the requests made before it; it also supplies
  the platform's \<^verbatim>\<open>JSON.parse\<close> (\<open>None\<close> for a \<^verbatim>\<open>SyntaxError\<close>) and
  \<^verbatim>\<open>JSON.stringify\<close>, the clock (the current instant and the end of the current day, both
  in ISO format) and the configured API key. The log of requests is the state that the
  code threads through its calls.
\<close>

record world =
  fetch :: "request list \<Rightarrow> request \<Rightarrow> fetch_outcome"
  JSON_parse :: "string \<Rightarrow> jsval option"
  JSON_stringify :: "jsval \<Rightarrow> jsval"
  clock :: "request list \<Rightarrow> string \<times> string"
  MISTRAL_API_KEY :: "string option"

type_synonym 'a io = "request list \<Rightarrow> (js_error + 'a) \<times> request list"

definition io_return :: "'a \<Rightarrow> 'a io" where
  "io_return x = (\<lambda>log. (Inr x, log))"

definition io_throw :: "js_error \<Rightarrow> 'a io" where
  "io_throw e = (\<lambda>log. (Inl e, log))"

definition io_lift :: "js_error + 'a \<Rightarrow> 'a io" where
  "io_lift r = (\<lambda>log. (r, log))"

definition io_bind :: "'a io \<Rightarrow> ('a \<Rightarrow> 'b io) \<Rightarrow> 'b io" where
  "io_bind m f = (\<lambda>log. case m log of (Inl e, log') \<Rightarrow> (Inl e, log') | (Inr x, log') \<Rightarrow> f x log')"

definition bind_e :: "js_error + 'a \<Rightarrow> ('a \<Rightarrow> js_error + 'b) \<Rightarrow> js_error + 'b" where
  "bind_e r f = (case r of Inl e \<Rightarrow> Inl e | Inr x \<Rightarrow> f x)"

text \<open>\<^verbatim>\<open>await fetch(url, init)\<close>: the request is made, then the world answers or the call rejects.\<close>

definition do_fetch :: "world \<Rightarrow> request \<Rightarrow> response io" where
  "do_fetch w req =
     (\<lambda>log. (case fetch w log req of Threw e \<Rightarrow> Inl e | Responded r \<Rightarrow> Inr r, log @ [req]))"

text \<open>\<^verbatim>\<open>await response.json()\<close>.\<close>

definition response_json :: "response \<Rightarrow> jsval io" where
  "response_json r =
     (case body_json r of
        None \<Rightarrow> io_throw (SyntaxError ''invalid json response body'')
      | Some v \<Rightarrow> io_return v)"

text \<open>
  \<^verbatim>\<open>Promise.all(xs.map(async ...))\<close>: every callback is started, in order, whatever
  becomes of the others; the result is the list of their values when all succeed, and a
  rejection otherwise. Which rejection is reported depends on timing; the model reports
  the first in list order.
\<close>

fun promise_all :: "'a io list \<Rightarrow> 'a list io" where
  "promise_all [] log = (Inr [], log)"
| "promise_all (m # ms) log =
     (case m log of (r, log1) \<Rightarrow>
        (case promise_all ms log1 of (rs, log2) \<Rightarrow>
           (case r of
              Inl e \<Rightarrow> Inl e
            | Inr x \<Rightarrow> (case rs of Inl e \<Rightarrow> Inl e | Inr xs \<Rightarrow> Inr (x # xs)), log2)))"

definition bearer :: "jsval \<Rightarrow> string" where
  "bearer accessToken = ''Bearer '' @ js_to_string accessToken"

subsection \<open>GmailService\<close>

definition GmailService_getEmails :: "world \<Rightarrow> jsval \<Rightarrow> jsval \<Rightarrow> jsval \<Rightarrow> jsval \<Rightarrow> jsval io" where
  "GmailService_getEmails w accessToken maxResults query label =
     (let url0 = ''https://gmail.googleapis.com/gmail/v1/users/me/messages?maxResults=''
                   @ js_to_string maxResults;
          url1 = (if truthy query then url0 @ ''&q='' @ encodeURIComponent (js_to_string query)
                  else url0);
          url2 = (if truthy label then url1 @ ''&labelIds='' @ encodeURIComponent (js_to_string label)
                  else url1)
      in io_bind (do_fetch w \<lparr>url = url2, http_method = GET,
                              authorization = bearer accessToken, body = NoBody\<rparr>) (\<lambda>resp.
         io_bind (response_json resp) (\<lambda>data.
         io_bind (io_lift (get_prop data ''messages'')) (\<lambda>msgs.
         io_return (js_or msgs (JArr []))))))"

definition GmailService_getEmail :: "world \<Rightarrow> jsval \<Rightarrow> jsval \<Rightarrow> jsval io" where
  "GmailService_getEmail w accessToken messageId =
     io_bind (do_fetch w \<lparr>url = ''https://gmail.googleapis.com/gmail/v1/users/me/messages/''
                                  @ js_to_string messageId,
                            http_method = GET, authorization = bearer accessToken,
                            body = NoBody\<rparr>) (\<lambda>resp.
     response_json resp)"

text \<open>
  The optional \<^verbatim>\<open>Cc\<close> and \<^verbatim>\<open>Bcc\<close> lines: \<^verbatim>\<open>email.cc ? [`Cc: ${email.cc.join(', ')}`] : []\<close>.
  Only an array has \<^verbatim>\<open>join\<close>.
\<close>

definition recipients_line :: "string \<Rightarrow> jsval \<Rightarrow> js_error + string list" where
  "recipients_line label v =
     (if truthy v then
        (case v of
           JArr xs \<Rightarrow> Inr [label @ js_join '', '' xs]
         | _ \<Rightarrow> Inl (TypeError ''join is not a function''))
      else Inr [])"

definition GmailService_sendEmail ::
  "world \<Rightarrow> jsval \<Rightarrow> jsval \<Rightarrow> jsval \<Rightarrow> jsval \<Rightarrow> jsval \<Rightarrow> jsval \<Rightarrow> jsval io" where
  "GmailService_sendEmail w accessToken e_to e_subject e_body e_cc e_bcc =
     io_bind (io_lift (recipients_line ''Cc: '' e_cc)) (\<lambda>ccLine.
     io_bind (io_lift (recipients_line ''Bcc: '' e_bcc)) (\<lambda>bccLine.
     (let emailContent =
            intercalate [CHR 0x0A]
              ([''To: '' @ js_to_string e_to] @ ccLine @ bccLine
               @ [''Content-Type: text/html; charset=utf-8'',
                  ''MIME-Version: 1.0'',
                  ''Subject: '' @ js_to_string e_subject,
                  [],
                  (if nullish e_body then [] else js_to_string e_body)])
      in io_bind (do_fetch w \<lparr>url = ''https://gmail.googleapis.com/gmail/v1/users/me/messages/send'',
                              http_method = POST, authorization = bearer accessToken,
                              body = RawMail emailContent\<rparr>) (\<lambda>resp.
         response_json resp))))"

subsection \<open>GoogleCalendarService\<close>

definition calendar_events_url :: string where
  "calendar_events_url = ''https://www.googleapis.com/calendar/v3/calendars/primary/events''"

definition GoogleCalendarService_getEvents ::
  "world \<Rightarrow> jsval \<Rightarrow> jsval \<Rightarrow> jsval \<Rightarrow> jsval \<Rightarrow> jsval io" where
  "GoogleCalendarService_getEvents w accessToken timeMin timeMax query =
     (\<lambda>log.
       (let defaultTimeMin = js_or timeMin (JStr (fst (clock w log)));
            defaultTimeMax = js_or timeMax (JStr (snd (clock w log)));
            url0 = calendar_events_url @ ''?''
                     @ ''timeMin='' @ encodeURIComponent (js_to_string defaultTimeMin) @ ''&''
                     @ ''timeMax='' @ encodeURIComponent (js_to_string defaultTimeMax) @ ''&''
                     @ ''singleEvents=true&orderBy=startTime'';
            url1 = (if truthy query then url0 @ ''&q='' @ encodeURIComponent (js_to_string query)
                    else url0)
        in io_bind (do_fetch w \<lparr>url = url1, http_method = GET,
                                authorization = bearer accessToken, body = NoBody\<rparr>) (\<lambda>resp.
           io_bind (response_json resp) (\<lambda>data.
           io_bind (io_lift (get_prop data ''items'')) (\<lambda>items.
           io_return (js_or items (JArr []))))) log))"

definition GoogleCalendarService_createEvent :: "world \<Rightarrow> jsval \<Rightarrow> jsval \<Rightarrow> jsval io" where
  "GoogleCalendarService_createEvent w accessToken event =
     io_bind (do_fetch w \<lparr>url = calendar_events_url, http_method = POST,
                            authorization = bearer accessToken, body = JsonBody event\<rparr>) (\<lambda>resp.
     response_json resp)"

definition GoogleCalendarService_updateEvent ::
  "world \<Rightarrow> jsval \<Rightarrow> jsval \<Rightarrow> jsval \<Rightarrow> jsval io" where
  "GoogleCalendarService_updateEvent w accessToken eventId event =
     io_bind (do_fetch w \<lparr>url = calendar_events_url @ ''/'' @ js_to_string eventId,
                            http_method = PUT, authorization = bearer accessToken,
                            body = JsonBody event\<rparr>) (\<lambda>resp.
     response_json resp)"

text \<open>\<^verbatim>\<open>deleteEvent\<close> awaits the request and returns nothing; the response is not read.\<close>

definition delete_request :: "jsval \<Rightarrow> jsval \<Rightarrow> request" where
  "delete_request accessToken eventId =
     \<lparr>url = calendar_events_url @ ''/'' @ js_to_string eventId, http_method = DELETE,
      authorization = bearer accessToken, body = NoBody\<rparr>"

definition GoogleCalendarService_deleteEvent :: "world \<Rightarrow> jsval \<Rightarrow> jsval \<Rightarrow> unit io" where
  "GoogleCalendarService_deleteEvent w accessToken eventId =
     io_bind (do_fetch w (delete_request accessToken eventId)) (\<lambda>resp. io_return ())"

subsection \<open>handleToolCalls\<close>

record tool_call =
  tc_id :: jsval
  tc_name :: jsval
  tc_arguments :: jsval

text \<open>
  An entry of \<^verbatim>\<open>results\<close>: \<^verbatim>\<open>{toolCallId, name, result}\<close> from the \<^verbatim>\<open>try\<close> block,
  \<^verbatim>\<open>{toolCallId, name, error}\<close> from the \<^verbatim>\<open>catch\<close> block; the field that is not set
  reads \<^verbatim>\<open>undefined\<close>.
\<close>

record tool_result =
  tr_toolCallId :: jsval
  tr_name :: jsval
  tr_result :: jsval
  tr_error :: jsval

text \<open>
  Each case of the \<^verbatim>\<open>switch\<close> reads a property of \<^verbatim>\<open>args\<close> before it does anything
  else, which throws when \<^verbatim>\<open>args\<close> is \<^verbatim>\<open>null\<close> or \<^verbatim>\<open>undefined\<close>; after that first read
  no read of \<^verbatim>\<open>args\<close> can throw.
\<close>

definition first_read :: "jsval \<Rightarrow> string \<Rightarrow> 'a io \<Rightarrow> 'a io" where
  "first_read args k m = (case get_prop args k of Inl e \<Rightarrow> io_throw e | Inr v \<Rightarrow> m)"

text \<open>\<^verbatim>\<open>headers.find((h) => h.name === n)\<close> on the elements of an array.\<close>

fun find_header :: "jsval list \<Rightarrow> string \<Rightarrow> js_error + jsval" where
  "find_header [] n = Inr JUndef"
| "find_header (h # hs) n =
     (case get_prop h ''name'' of
        Inl e \<Rightarrow> Inl e
      | Inr v \<Rightarrow> if v = JStr n then Inr h else find_header hs n)"

text \<open>\<^verbatim>\<open>detail.payload.headers.find((h) => h.name === n)?.value\<close>.\<close>

definition header_value :: "jsval \<Rightarrow> string \<Rightarrow> js_error + jsval" where
  "header_value detail n =
     bind_e (get_prop detail ''payload'') (\<lambda>payload.
     bind_e (get_prop payload ''headers'') (\<lambda>headers.
       (case headers of
          JArr hs \<Rightarrow> bind_e (find_header hs n) (\<lambda>h. Inr (opt_prop h ''value''))
        | JUndef \<Rightarrow> Inl (TypeError ''Cannot read properties of undefined (reading find)'')
        | JNull \<Rightarrow> Inl (TypeError ''Cannot read properties of null (reading find)'')
        | _ \<Rightarrow> Inl (TypeError ''detail.payload.headers.find is not a function''))))"

text \<open>The callback of \<^verbatim>\<open>emails.map\<close> in the \<^verbatim>\<open>get_emails\<close> case.\<close>

definition email_summary :: "world \<Rightarrow> jsval \<Rightarrow> jsval \<Rightarrow> jsval io" where
  "email_summary w accessToken email =
     io_bind (io_lift (get_prop email ''id'')) (\<lambda>email_id.
     io_bind (GmailService_getEmail w accessToken email_id) (\<lambda>detail.
     io_bind (io_lift (header_value detail ''Subject'')) (\<lambda>subject.
     io_bind (io_lift (header_value detail ''From'')) (\<lambda>sender.
     io_bind (io_lift (header_value detail ''Date'')) (\<lambda>date.
     io_bind (io_lift (get_prop detail ''snippet'')) (\<lambda>snippet.
     io_return (JObj [(''id'', email_id),
                      (''subject'', js_or subject (JStr ''No Subject'')),
                      (''from'', js_or sender (JStr ''Unknown Sender'')),
                      (''date'', date),
                      (''snippet'', snippet)])))))))"

text \<open>\<^verbatim>\<open>xs.map((email) => ({ email }))\<close>, for \<^verbatim>\<open>xs\<close> not \<^verbatim>\<open>null\<close> or \<^verbatim>\<open>undefined\<close>.\<close>

definition map_attendees :: "jsval \<Rightarrow> js_error + jsval" where
  "map_attendees v =
     (case v of
        JArr xs \<Rightarrow> Inr (JArr (map (\<lambda>e. JObj [(''email'', e)]) xs))
      | _ \<Rightarrow> Inl (TypeError ''args.attendees.map is not a function''))"

text \<open>One assignment \<^verbatim>\<open>if (args.k) updateData.k = v\<close>.\<close>

definition set_if :: "jsval \<Rightarrow> string \<Rightarrow> jsval \<Rightarrow> (string \<times> jsval) list" where
  "set_if c k v = (if truthy c then [(k, v)] else [])"

text \<open>The body of the \<^verbatim>\<open>switch\<close>: the value assigned to \<^verbatim>\<open>result\<close>, or the exception.\<close>

definition execute_tool :: "world \<Rightarrow> jsval \<Rightarrow> tool_call \<Rightarrow> jsval io" where
  "execute_tool w accessToken toolCall =
     (let tname = tc_name toolCall; args = tc_arguments toolCall in
      if tname = JStr ''get_emails'' then
        first_read args ''max_results''
          (io_bind (GmailService_getEmails w accessToken
                      (js_or (opt_prop args ''max_results'') (JNum 5))
                      (opt_prop args ''query'') (opt_prop args ''label'')) (\<lambda>emails.
           (case emails of
              JArr es \<Rightarrow>
                io_bind (promise_all (map (email_summary w accessToken) es)) (\<lambda>rs.
                io_return (JArr rs))
            | _ \<Rightarrow> io_throw (TypeError ''emails.map is not a function''))))
      else if tname = JStr ''send_email'' then
        first_read args ''to''
          (GmailService_sendEmail w accessToken
             (opt_prop args ''to'') (opt_prop args ''subject'') (opt_prop args ''body'')
             (opt_prop args ''cc'') (opt_prop args ''bcc''))
      else if tname = JStr ''get_calendar_events'' then
        first_read args ''time_min''
          (GoogleCalendarService_getEvents w accessToken
             (opt_prop args ''time_min'') (opt_prop args ''time_max'') (opt_prop args ''query''))
      else if tname = JStr ''create_calendar_event'' then
        first_read args ''summary''
          (io_bind (io_lift (if nullish (opt_prop args ''attendees'') then Inr JUndef
                             else map_attendees (opt_prop args ''attendees''))) (\<lambda>attendees.
           GoogleCalendarService_createEvent w accessToken
             (JObj [(''summary'', opt_prop args ''summary''),
                    (''start'', JObj [(''dateTime'', opt_prop args ''start'')]),
                    (''end'', JObj [(''dateTime'', opt_prop args ''end'')]),
                    (''location'', opt_prop args ''location''),
                    (''description'', opt_prop args ''description''),
                    (''attendees'', attendees)])))
      else if tname = JStr ''update_calendar_event'' then
        first_read args ''summary''
          (io_bind (io_lift (if truthy (opt_prop args ''attendees'')
                             then map_attendees (opt_prop args ''attendees'')
                             else Inr JUndef)) (\<lambda>attendees.
           GoogleCalendarService_updateEvent w accessToken (opt_prop args ''event_id'')
             (JObj (set_if (opt_prop args ''summary'') ''summary'' (opt_prop args ''summary'')
                    @ set_if (opt_prop args ''start'') ''start''
                        (JObj [(''dateTime'', opt_prop args ''start'')])
                    @ set_if (opt_prop args ''end'') ''end''
                        (JObj [(''dateTime'', opt_prop args ''end'')])
                    @ set_if (opt_prop args ''location'') ''location'' (opt_prop args ''location'')
                    @ set_if (opt_prop args ''description'') ''description''
                        (opt_prop args ''description'')
                    @ set_if (opt_prop args ''attendees'') ''attendees'' attendees))))
      else if tname = JStr ''delete_calendar_event'' then
        first_read args ''event_id''
          (io_bind (GoogleCalendarService_deleteEvent w accessToken (opt_prop args ''event_id''))
             (\<lambda>_. io_return (JObj [(''success'', JBool True),
                                    (''message'', JStr ''Event deleted successfully'')])))
      else
        io_return (JObj [(''error'', JStr (''Unknown tool call: '' @ js_to_string tname))]))"

text \<open>What one iteration of the loop pushes onto \<^verbatim>\<open>results\<close>.\<close>

definition result_entry :: "tool_call \<Rightarrow> js_error + jsval \<Rightarrow> tool_result" where
  "result_entry toolCall r =
     (case r of
        Inr v \<Rightarrow> \<lparr>tr_toolCallId = tc_id toolCall, tr_name = tc_name toolCall,
                  tr_result = v, tr_error = JUndef\<rparr>
      | Inl e \<Rightarrow> \<lparr>tr_toolCallId = tc_id toolCall, tr_name = tc_name toolCall,
                  tr_result = JUndef, tr_error = JStr (message_of e)\<rparr>)"

fun handleToolCalls ::
  "world \<Rightarrow> jsval \<Rightarrow> tool_call list \<Rightarrow> request list \<Rightarrow> tool_result list \<times> request list" where
  "handleToolCalls w accessToken [] log = ([], log)"
| "handleToolCalls w accessToken (toolCall # rest) log =
     (case execute_tool w accessToken toolCall log of (r, log1) \<Rightarrow>
        (case handleToolCalls w accessToken rest log1 of (results, log2) \<Rightarrow>
           (result_entry toolCall r # results, log2)))"

subsection \<open>MistralService\<close>

definition apiUrl :: string where
  "apiUrl = ''https://api.mistral.ai/v1/chat/completions''"

definition formatToolCalls :: "world \<Rightarrow> tool_call list \<Rightarrow> jsval" where
  "formatToolCalls w toolCalls =
     JArr (map (\<lambda>call. JObj [(''id'', tc_id call),
                              (''type'', JStr ''function''),
                              (''function'', JObj [(''name'', tc_name call),
                                                   (''arguments'', JSON_stringify w (tc_arguments call))])])
               toolCalls)"

text \<open>
  The object pushed by \<^verbatim>\<open>formatMessages\<close>: the spread \<^verbatim>\<open>...(msg.k && { k: msg.k })\<close> sets
  a field only when it is truthy.
\<close>

definition keep_truthy :: "jsval \<Rightarrow> jsval" where
  "keep_truthy v = (if truthy v then v else JUndef)"

definition format_message :: "message \<Rightarrow> message" where
  "format_message msg =
     \<lparr>role = role msg, content = content msg, name = keep_truthy (name msg),
      tool_calls = keep_truthy (tool_calls msg), tool_call_id = keep_truthy (tool_call_id msg)\<rparr>"

text \<open>The loop of \<^verbatim>\<open>formatMessages\<close>, with its variable \<^verbatim>\<open>lastRole\<close>.\<close>

fun formatMessages_from :: "role option \<Rightarrow> message list \<Rightarrow> message list" where
  "formatMessages_from lastRole [] = []"
| "formatMessages_from lastRole (msg # rest) =
     (if role msg = System then formatMessages_from lastRole rest
      else if role msg = Tool \<and> lastRole \<noteq> Some Assistant then formatMessages_from lastRole rest
      else format_message msg # formatMessages_from (Some (role msg)) rest)"

definition formatMessages :: "message list \<Rightarrow> message list" where
  "formatMessages msgs = formatMessages_from None msgs"

definition safeParseJson :: "world \<Rightarrow> jsval \<Rightarrow> jsval" where
  "safeParseJson w jsonString =
     (if truthy jsonString then
        (case JSON_parse w (js_to_string jsonString) of
           Some v \<Rightarrow> v
         | None \<Rightarrow> JObj [])
      else JObj [])"

definition getSystemPrompt :: string where
  "getSystemPrompt =
     ''You are Jarvis, an AI assistant specialized in Gmail and Google Calendar management. Follow these rules:\<newline>''
     @ ''1. NEVER use placeholder data (like example@email.com or \"Meeting with X\")\<newline>''
     @ ''2. For actions requiring specific details (emails/events), ALWAYS ask for:\<newline>''
     @ ''   - Recipient's REAL email address for emails\<newline>''
     @ ''   - Specific date/time for calendar events\<newline>''
     @ ''   - Complete details before taking action\<newline>''
     @ ''3. Be concise but thorough in responses\<newline>''
     @ ''4. Confirm actions with user before executing''"

definition string_param :: "string \<Rightarrow> jsval" where
  "string_param d = JObj [(''type'', JStr ''string''), (''description'', JStr d)]"

definition datetime_param :: "string \<Rightarrow> jsval" where
  "datetime_param d =
     JObj [(''type'', JStr ''string''), (''format'', JStr ''date-time''), (''description'', JStr d)]"

definition tool_definition :: "string \<Rightarrow> string \<Rightarrow> (string \<times> jsval) list \<Rightarrow> string list \<Rightarrow> jsval" where
  "tool_definition n d props req =
     JObj [(''type'', JStr ''function''),
           (''function'',
            JObj [(''name'', JStr n),
                  (''description'', JStr d),
                  (''parameters'',
                   JObj [(''type'', JStr ''object''),
                         (''properties'', JObj props),
                         (''required'', JArr (map JStr req))])])]"

definition getToolDefinitions :: "jsval list" where
  "getToolDefinitions =
     [tool_definition ''get_emails'' ''Fetch emails from Gmail inbox''
        [(''max_results'',
          JObj [(''type'', JStr ''integer''),
                (''description'', JStr ''Maximum number of emails to return (default: 5)''),
                (''default'', JNum 5)]),
         (''query'', string_param ''Gmail search query to filter emails''),
         (''label'', string_param ''Filter by label ID'')]
        [],
      tool_definition ''send_email'' ''Send an email through Gmail''
        [(''to'', string_param ''Recipient email address''),
         (''subject'', string_param ''Email subject''),
         (''body'', string_param ''Email content in HTML format''),
         (''cc'', JObj [(''type'', JStr ''array''), (''items'', JObj [(''type'', JStr ''string'')]),
                        (''description'', JStr ''CC recipients'')]),
         (''bcc'', JObj [(''type'', JStr ''array''), (''items'', JObj [(''type'', JStr ''string'')]),
                         (''description'', JStr ''BCC recipients'')])]
        [''to'', ''subject'', ''body''],
      tool_definition ''get_calendar_events'' ''Fetch calendar events within a time range''
        [(''time_min'', datetime_param ''Start time in ISO 8601 format (default: current time)''),
         (''time_max'', datetime_param ''End time in ISO 8601 format (default: end of current day)''),
         (''query'', string_param ''Search query to filter events'')]
        [],
      tool_definition ''create_calendar_event'' ''Create a new calendar event''
        [(''summary'', string_param ''Event title''),
         (''start'', datetime_param ''Start time in ISO 8601 format''),
         (''end'', datetime_param ''End time in ISO 8601 format''),
         (''location'', string_param ''Physical or virtual meeting location''),
         (''description'', string_param ''Event description/details''),
         (''attendees'',
          JObj [(''type'', JStr ''array''),
                (''items'', JObj [(''type'', JStr ''string''), (''format'', JStr ''email'')]),
                (''description'', JStr ''List of attendee email addresses'')])]
        [''summary'', ''start'', ''end''],
      tool_definition ''update_calendar_event'' ''Update an existing calendar event''
        [(''event_id'', string_param ''ID of the event to update''),
         (''summary'', string_param ''Updated event title''),
         (''start'', datetime_param ''Updated start time in ISO 8601 format''),
         (''end'', datetime_param ''Updated end time in ISO 8601 format''),
         (''location'', string_param ''Updated location''),
         (''description'', string_param ''Updated description''),
         (''attendees'',
          JObj [(''type'', JStr ''array''),
                (''items'', JObj [(''type'', JStr ''string''), (''format'', JStr ''email'')]),
                (''description'', JStr ''Updated list of attendee email addresses'')])]
        [''event_id''],
      tool_definition ''delete_calendar_event'' ''Delete a calendar event''
        [(''event_id'', string_param ''ID of the event to delete'')]
        [''event_id'']]"

text \<open>The names under which tools are offered to the model.\<close>

definition registered_names :: "jsval list" where
  "registered_names = map (\<lambda>t. opt_prop (opt_prop t ''function'') ''name'') getToolDefinitions"

record chat_response =
  resp_content :: jsval
  resp_toolCalls :: "tool_call list option"

definition trouble_message :: string where
  "trouble_message =
     ''I apologize, but I had trouble processing that request. Could you please try again?''"

definition error_message :: string where
  "error_message =
     ''Sorry, I encountered an error processing your request. Please try again later.''"

text \<open>The callback of \<^verbatim>\<open>tool_calls.map\<close>.\<close>

definition parse_tool_call :: "world \<Rightarrow> jsval \<Rightarrow> js_error + tool_call" where
  "parse_tool_call w call =
     bind_e (get_prop call ''id'') (\<lambda>call_id.
     bind_e (get_prop call ''function'') (\<lambda>fn.
       Inr \<lparr>tc_id = call_id, tc_name = opt_prop fn ''name'',
            tc_arguments = safeParseJson w (opt_prop fn ''arguments'')\<rparr>))"

fun map_e :: "('a \<Rightarrow> js_error + 'b) \<Rightarrow> 'a list \<Rightarrow> js_error + 'b list" where
  "map_e f [] = Inr []"
| "map_e f (x # xs) =
     (case f x of
        Inl e \<Rightarrow> Inl e
      | Inr y \<Rightarrow> (case map_e f xs of Inl e \<Rightarrow> Inl e | Inr ys \<Rightarrow> Inr (y # ys)))"

text \<open>\<^verbatim>\<open>assistantMessage?.tool_calls?.map(...)\<close>.\<close>

definition parse_tool_calls :: "world \<Rightarrow> jsval \<Rightarrow> js_error + tool_call list option" where
  "parse_tool_calls w assistantMessage =
     (let tcs = opt_prop assistantMessage ''tool_calls'' in
      if nullish tcs then Inr None
      else (case tcs of
              JArr calls \<Rightarrow> bind_e (map_e (parse_tool_call w) calls) (\<lambda>cs. Inr (Some cs))
            | _ \<Rightarrow> Inl (TypeError ''assistantMessage.tool_calls.map is not a function'')))"

text \<open>\<^verbatim>\<open>result.choices[0]?.message\<close>.\<close>

definition first_choice_message :: "jsval \<Rightarrow> js_error + jsval" where
  "first_choice_message result =
     bind_e (get_prop result ''choices'') (\<lambda>choices.
     bind_e (index0 choices) (\<lambda>choice.
       Inr (opt_prop choice ''message'')))"

definition chat_request :: "message list \<Rightarrow> jsval list option \<Rightarrow> string \<Rightarrow> request" where
  "chat_request msgs tools key =
     \<lparr>url = apiUrl, http_method = POST, authorization = ''Bearer '' @ key,
      body = ChatBody
               (\<lparr>role = System, content = JStr getSystemPrompt, name = JUndef,
                 tool_calls = JUndef, tool_call_id = JUndef\<rparr> # formatMessages msgs)
               (case tools of
                  Some ts \<Rightarrow> if length ts > 0 then Some ts else None
                | None \<Rightarrow> None)\<rparr>"

text \<open>The \<^verbatim>\<open>try\<close> block of \<^verbatim>\<open>getChatResponse\<close>.\<close>

definition getChatResponse_try :: "world \<Rightarrow> message list \<Rightarrow> jsval list option \<Rightarrow> chat_response io" where
  "getChatResponse_try w msgs tools =
     (case MISTRAL_API_KEY w of
        None \<Rightarrow> io_throw (Error ''Mistral API key not configured'')
      | Some key \<Rightarrow>
          if key = [] then io_throw (Error ''Mistral API key not configured'')
          else
            io_bind (do_fetch w (chat_request msgs tools key)) (\<lambda>resp.
            if \<not> ok resp then
              io_throw (Error (''Mistral API error: '' @ show_nat (status resp) @ '' ''
                               @ statusText resp @ '' - '' @ body_text resp))
            else
              io_bind (response_json resp) (\<lambda>result.
              io_bind (io_lift (first_choice_message result)) (\<lambda>assistantMessage.
              io_bind (io_lift (parse_tool_calls w assistantMessage)) (\<lambda>toolCalls.
              io_return \<lparr>resp_content = js_or (opt_prop assistantMessage ''content'')
                                           (JStr trouble_message),
                         resp_toolCalls = toolCalls\<rparr>)))))"

definition getChatResponse ::
  "world \<Rightarrow> message list \<Rightarrow> jsval list option \<Rightarrow> request list \<Rightarrow> chat_response \<times> request list" where
  "getChatResponse w msgs tools log =
     (case getChatResponse_try w msgs tools log of
        (Inr r, log') \<Rightarrow> (r, log')
      | (Inl e, log') \<Rightarrow> (\<lparr>resp_content = JStr error_message, resp_toolCalls = None\<rparr>, log'))"

subsection \<open>The chat endpoint\<close>

record user =
  accessToken :: jsval

record session =
  session_user :: "user option"
  session_messages :: "message list option"

datatype http_reply = Status401 | Json200 message

definition plain_message :: "role \<Rightarrow> jsval \<Rightarrow> message" where
  "plain_message r c =
     \<lparr>role = r, content = c, name = JUndef, tool_calls = JUndef, tool_call_id = JUndef\<rparr>"

text \<open>What \<^verbatim>\<open>toolResults.forEach\<close> pushes for one result.\<close>

definition tool_message :: "world \<Rightarrow> tool_result \<Rightarrow> message" where
  "tool_message w res =
     \<lparr>role = Tool, content = JSON_stringify w (js_or (tr_result res) (tr_error res)),
      name = JUndef, tool_calls = JUndef, tool_call_id = tr_toolCallId res\<rparr>"

text \<open>\<^verbatim>\<open>xs.slice(-n)\<close>.\<close>

definition slice_last :: "nat \<Rightarrow> 'a list \<Rightarrow> 'a list" where
  "slice_last n xs = drop (length xs - n) xs"

text \<open>\<^verbatim>\<open>req.session.user?.accessToken ? mistralService.getToolDefinitions() : undefined\<close>.\<close>

definition offered_tools :: "user \<Rightarrow> jsval list option" where
  "offered_tools u = (if truthy (accessToken u) then Some getToolDefinitions else None)"

text \<open>The assistant message pushed before the tool calls are executed.\<close>

definition assistant_tool_message :: "world \<Rightarrow> jsval \<Rightarrow> tool_call list \<Rightarrow> message" where
  "assistant_tool_message w c toolCalls =
     \<lparr>role = Assistant, content = js_or c (JStr []), name = JUndef,
      tool_calls = formatToolCalls w toolCalls, tool_call_id = JUndef\<rparr>"

text \<open>
  The \<^verbatim>\<open>try\<close> block of the handler up to the truncation: from the history with the
  user's message pushed to the history with the final assistant message pushed. Neither
  \<^verbatim>\<open>getChatResponse\<close> nor \<^verbatim>\<open>handleToolCalls\<close> lets an exception out, so the
  \<^verbatim>\<open>catch\<close> block of the handler, which answers with status 500, is never entered.
\<close>

definition run_exchange ::
  "world \<Rightarrow> user \<Rightarrow> message list \<Rightarrow> request list \<Rightarrow> message list \<times> request list" where
  "run_exchange w u msgs log =
     (case getChatResponse w msgs (offered_tools u) log of (first, log1) \<Rightarrow>
        (case resp_toolCalls first of
           Some (toolCall # rest) \<Rightarrow>
             (let msgs1 = msgs @ [assistant_tool_message w (resp_content first) (toolCall # rest)]
              in case handleToolCalls w (accessToken u) (toolCall # rest) log1 of
                   (toolResults, log2) \<Rightarrow>
                     (let msgs2 = msgs1 @ map (tool_message w) toolResults
                      in case getChatResponse w msgs2 None log2 of
                           (finalResponse, log3) \<Rightarrow>
                             (msgs2 @ [plain_message Assistant (resp_content finalResponse)], log3)))
         | _ \<Rightarrow> (msgs @ [plain_message Assistant (resp_content first)], log1)))"

definition api_chat ::
  "world \<Rightarrow> session \<Rightarrow> jsval \<Rightarrow> request list \<Rightarrow> (session \<times> http_reply) \<times> request list" where
  "api_chat w sess msg log =
     (case session_user sess of
        None \<Rightarrow> ((sess, Status401), log)
      | Some u \<Rightarrow>
          (let msgs = (case session_messages sess of None \<Rightarrow> [] | Some ms \<Rightarrow> ms)
                        @ [plain_message User msg]
           in case run_exchange w u msgs log of
                (final, log') \<Rightarrow>
                  ((sess\<lparr>session_messages := Some (slice_last 10 final)\<rparr>, Json200 (last final)),
                   log')))"

section \<open>Notions used to state the properties\<close>

text \<open>The history an exchange starts from: the stored messages and the user's message.\<close>

definition opening_history :: "session \<Rightarrow> jsval \<Rightarrow> message list" where
  "opening_history sess msg =
     (case session_messages sess of None \<Rightarrow> [] | Some ms \<Rightarrow> ms) @ [plain_message User msg]"

text \<open>
  A call to the model has failed when the request was rejected (a transport error), when
  the response status is not 2xx, when the body is not JSON, or when the body has no
  \<^verbatim>\<open>choices[0].message\<close>.
\<close>

definition llm_call_failed :: "fetch_outcome \<Rightarrow> bool" where
  "llm_call_failed out =
     (case out of
        Threw e \<Rightarrow> True
      | Responded r \<Rightarrow>
          \<not> ok r \<or>
          (case body_json r of
             None \<Rightarrow> True
           | Some result \<Rightarrow>
               (case first_choice_message result of
                  Inl e \<Rightarrow> True
                | Inr m \<Rightarrow> nullish m)))"

text \<open>
  The answer of the world to the last call to the model in an exchange: to the second
  call when the first reply asked for tools, to the first call otherwise.
\<close>

definition last_llm_outcome ::
  "world \<Rightarrow> user \<Rightarrow> string \<Rightarrow> message list \<Rightarrow> request list \<Rightarrow> fetch_outcome" where
  "last_llm_outcome w u key msgs log =
     (case getChatResponse w msgs (offered_tools u) log of (first, log1) \<Rightarrow>
        (case resp_toolCalls first of
           Some (toolCall # rest) \<Rightarrow>
             (case handleToolCalls w (accessToken u) (toolCall # rest) log1 of
                (toolResults, log2) \<Rightarrow>
                  fetch w log2
                    (chat_request
                       (msgs @ [assistant_tool_message w (resp_content first) (toolCall # rest)]
                          @ map (tool_message w) toolResults)
                       None key))
         | _ \<Rightarrow> fetch w log (chat_request msgs (offered_tools u) key)))"

text \<open>
  The history sent with the second call to the model: the opening history, the assistant
  message bearing the tool calls, and one tool message per result.
\<close>

definition tool_round_history ::
  "world \<Rightarrow> user \<Rightarrow> message list \<Rightarrow> chat_response \<Rightarrow> tool_call list \<Rightarrow> request list \<Rightarrow> message list" where
  "tool_round_history w u msgs first tcs log1 =
     msgs @ assistant_tool_message w (resp_content first) tcs
       # map (tool_message w) (fst (handleToolCalls w (accessToken u) tcs log1))"

text \<open>An action whose requests, if any, all go to Google, none to the model.\<close>

definition no_llm_request :: "'a io \<Rightarrow> bool" where
  "no_llm_request m =
     (\<forall>log. \<exists>new. snd (m log) = log @ new \<and> list_all (\<lambda>q. url q \<noteq> apiUrl) new)"

text \<open>Several exchanges in a row on one session.\<close>

fun chat_sequence :: "world \<Rightarrow> session \<Rightarrow> jsval list \<Rightarrow> request list \<Rightarrow> session \<times> request list" where
  "chat_sequence w sess [] log = (sess, log)"
| "chat_sequence w sess (msg # rest) log =
     (case api_chat w sess msg log of ((sess', reply), log') \<Rightarrow> chat_sequence w sess' rest log')"

text \<open>
  The turns that C5 says are forwarded. A tool turn answers the assistant turn that
  opens its round, the nearest turn before it that is not a tool turn, when that turn
  bears a tool call with the tool turn's id. A tool turn that answers no such turn is
  dropped; every other turn is forwarded. The first argument holds the ids of the tool
  calls of the round that the turns read so far have opened.
\<close>

definition emitted_ids :: "message \<Rightarrow> jsval list" where
  "emitted_ids msg =
     (if role msg = Assistant then
        (case tool_calls msg of
           JArr calls \<Rightarrow>
             map (\<lambda>call. case call of
                           JObj props \<Rightarrow> (case map_of props ''id'' of Some i \<Rightarrow> i | None \<Rightarrow> JUndef)
                         | _ \<Rightarrow> JUndef) calls
         | _ \<Rightarrow> [])
      else [])"

fun forwarded_as_stated :: "jsval list \<Rightarrow> message list \<Rightarrow> message list" where
  "forwarded_as_stated ids [] = []"
| "forwarded_as_stated ids (msg # rest) =
     (if role msg = Tool then
        (if tool_call_id msg \<in> set ids then msg # forwarded_as_stated ids rest
         else forwarded_as_stated ids rest)
      else msg # forwarded_as_stated (emitted_ids msg) rest)"

section \<open>Sample worlds\<close>

text \<open>
  Concrete worlds on which the theorems below are exercised. The serialiser is right
  for values whose strings need no escaping, the parser knows the two texts it is
  given here and rejects everything else.
\<close>

definition quote_string :: "string \<Rightarrow> string" where
  "quote_string s = [CHR 0x22] @ s @ [CHR 0x22]"

fun render_json :: "jsval \<Rightarrow> string" where
  "render_json JUndef = ''null''"
| "render_json JNull = ''null''"
| "render_json (JBool b) = (if b then ''true'' else ''false'')"
| "render_json (JNum n) = js_to_string (JNum n)"
| "render_json (JStr s) = quote_string s"
| "render_json (JArr xs) = ''['' @ intercalate '','' (map render_json xs) @ '']''"
| "render_json (JObj kvs) =
     ''{'' @ intercalate '',''
              (map (\<lambda>(k, v). quote_string k @ '':'' @ render_json v)
                   (filter (\<lambda>(k, v). v \<noteq> JUndef) kvs)) @ ''}''"

definition sample_stringify :: "jsval \<Rightarrow> jsval" where
  "sample_stringify v = (if v = JUndef then JUndef else JStr (render_json v))"

definition sample_parse :: "string \<Rightarrow> jsval option" where
  "sample_parse s =
     (if s = ''{}'' then Some (JObj [])
      else if s = ''{\"event_id\":\"evt123\"}'' then Some (JObj [(''event_id'', JStr ''evt123'')])
      else None)"

definition not_found :: response where
  "not_found = \<lparr>status = 404, statusText = ''Not Found'', body_text = ''Not Found'', body_json = None\<rparr>"

definition json_reply :: "jsval \<Rightarrow> fetch_outcome" where
  "json_reply v = Responded \<lparr>status = 200, statusText = ''OK'', body_text = render_json v, body_json = Some v\<rparr>"

text \<open>A reply of the model with the given message as its only choice.\<close>

definition llm_reply :: "jsval \<Rightarrow> fetch_outcome" where
  "llm_reply m = json_reply (JObj [(''choices'', JArr [JObj [(''message'', m)]])])"

definition text_reply :: "string \<Rightarrow> fetch_outcome" where
  "text_reply s = llm_reply (JObj [(''role'', JStr ''assistant''), (''content'', JStr s)])"

definition tool_call_reply :: "(string \<times> string \<times> string) list \<Rightarrow> fetch_outcome" where
  "tool_call_reply calls =
     llm_reply (JObj [(''role'', JStr ''assistant''),
                      (''content'', JStr []),
                      (''tool_calls'',
                       JArr (map (\<lambda>(i, n, a). JObj [(''id'', JStr i),
                                                     (''function'', JObj [(''name'', JStr n),
                                                                          (''arguments'', JStr a)])])
                                 calls))])"

text \<open>
  The world \<open>sample_world llm\<close> answers the \<open>n\<close>-th request to the model with \<open>llm n\<close>,
  every \<^verbatim>\<open>DELETE\<close> with status 404, and lets every other request fail in transport.
\<close>

definition sample_world :: "(nat \<Rightarrow> fetch_outcome) \<Rightarrow> world" where
  "sample_world llm =
     \<lparr>fetch = (\<lambda>log req.
                 if url req = apiUrl then llm (length (filter (\<lambda>r. url r = apiUrl) log))
                 else if http_method req = DELETE then Responded not_found
                 else Threw (FetchError ''network unreachable'')),
      JSON_parse = sample_parse,
      JSON_stringify = sample_stringify,
      clock = (\<lambda>log. (''2025-01-01T09:00:00.000Z'', ''2025-01-01T23:59:59.999Z'')),
      MISTRAL_API_KEY = Some ''test-key''\<rparr>"

definition sample_user :: user where
  "sample_user = \<lparr>accessToken = JStr ''ya29.token''\<rparr>"

definition new_session :: session where
  "new_session = \<lparr>session_user = Some sample_user, session_messages = None\<rparr>"

definition sample_call :: "string \<Rightarrow> string \<Rightarrow> jsval \<Rightarrow> tool_call" where
  "sample_call i n a = \<lparr>tc_id = JStr i, tc_name = JStr n, tc_arguments = a\<rparr>"

text \<open>The model asks for one deletion, confirms it, and answers plainly from then on.\<close>

definition delete_then_chat :: world where
  "delete_then_chat =
     sample_world (\<lambda>n. if n = 0 then tool_call_reply [(''call_1'', ''delete_calendar_event'',
                                                         ''{\"event_id\":\"evt123\"}'')]
                        else if n = 1 then text_reply ''Deleted.''
                        else text_reply ''OK'')"

text \<open>The model's endpoint answers with status 500.\<close>

definition failing_llm :: world where
  "failing_llm =
     sample_world (\<lambda>n. Responded \<lparr>status = 500, statusText = ''Internal Server Error'',
                                   body_text = ''upstream error'', body_json = None\<rparr>)"

text \<open>The model asks for one deletion; the second call to it fails in transport.\<close>

definition tools_then_failure :: world where
  "tools_then_failure =
     sample_world (\<lambda>n. if n = 0 then tool_call_reply [(''call_1'', ''delete_calendar_event'',
                                                         ''{\"event_id\":\"evt123\"}'')]
                        else Threw (FetchError ''socket hang up''))"

text \<open>The model asks for a tool with an argument string that is not JSON.\<close>

definition malformed_arguments :: world where
  "malformed_arguments =
     sample_world (\<lambda>n. if n = 0 then tool_call_reply [(''call_1'', ''get_calendar_events'',
                                                         ''{not json'')]
                        else text_reply ''Done.'')"

text \<open>The model asks for a deletion and for the day's events in one reply.\<close>

definition two_tool_calls :: world where
  "two_tool_calls =
     sample_world (\<lambda>n. if n = 0 then tool_call_reply
                                         [(''call_1'', ''delete_calendar_event'',
                                           ''{\"event_id\":\"evt123\"}''),
                                          (''call_2'', ''get_calendar_events'', ''{}'')]
                        else text_reply ''Done.'')"

text \<open>The model answers plainly four times, then asks for one deletion and confirms it.\<close>

definition chat_then_delete :: world where
  "chat_then_delete =
     sample_world (\<lambda>n. if n < 4 then text_reply ''OK''
                        else if n = 4 then tool_call_reply [(''call_1'', ''delete_calendar_event'',
                                                              ''{\"event_id\":\"evt123\"}'')]
                        else text_reply ''Deleted.'')"

text \<open>The session and the log after four plain exchanges in that world.\<close>

definition busy_session :: session where
  "busy_session =
     fst (chat_sequence chat_then_delete new_session
            [JStr ''one'', JStr ''two'', JStr ''three'', JStr ''four''] [])"

definition busy_log :: "request list" where
  "busy_log =
     snd (chat_sequence chat_then_delete new_session
            [JStr ''one'', JStr ''two'', JStr ''three'', JStr ''four''] [])"

definition busy_exchange :: "message list \<times> request list" where
  "busy_exchange =
     run_exchange chat_then_delete sample_user
       (opening_history busy_session (JStr ''delete evt123'')) busy_log"

text \<open>The model asks for nine tools, none of them registered, in one reply.\<close>

definition nine_calls :: world where
  "nine_calls =
     sample_world (\<lambda>n. if n = 0 then tool_call_reply
                                         (map (\<lambda>i. (i, ''foo_bar'', ''{}''))
                                            [''c1'', ''c2'', ''c3'', ''c4'', ''c5'', ''c6'', ''c7'',
                                             ''c8'', ''c9''])
                        else text_reply ''Done.'')"

definition nine_exchange :: "message list \<times> request list" where
  "nine_exchange =
     run_exchange nine_calls sample_user (opening_history new_session (JStr ''try everything'')) []"

section \<open>Registry search\<close>

lemma starts_with_prefix: "starts_with s q = prefix q s"
  by (induction s q rule: starts_with.induct) auto

lemma includes_sublist: "str_includes s q = sublist q s"
proof (induction s)
  case Nil
  show ?case by simp
next
  case (Cons c cs)
  then show ?case by (simp add: starts_with_prefix sublist_Cons_right)
qed

lemma search_is_filter:
  "searchIntegrationFunction q = filter (matches_query q) functions_catalog"
  unfolding searchIntegrationFunction_def Let_def includes_sublist
  by (rule filter_cong) (simp_all add: matches_query_def)

lemma search_empty_query: "searchIntegrationFunction [] = functions_catalog"
proof -
  have "\<And>s. str_includes s []" by (simp add: includes_sublist)
  then show ?thesis by (simp add: searchIntegrationFunction_def toLowerCase_def)
qed

lemma length_functions_catalog: "length functions_catalog = 8"
  by (simp add: functions_catalog_def)

text \<open>
  C6, as stated, fails: the empty string is a substring of every string, so the search
  for it returns the whole catalog of eight descriptors, not the empty sequence.
\<close>

theorem C6_empty_query_counterexample:
  "searchIntegrationFunction [] \<noteq> [] \<and> length (searchIntegrationFunction []) = 8"
  using length_functions_catalog by (auto simp: search_empty_query)

text \<open>
  C6, amended: for every query the search returns, in catalog order, exactly the
  descriptors whose name, description or category contains the query as a substring,
  letter case ignored; it always returns (the function is total), a query that no
  descriptor matches gives the empty sequence, and the empty query gives the whole
  catalog.
\<close>

theorem C6_search_exact:
  "searchIntegrationFunction q = filter (matches_query q) functions_catalog
   \<and> (searchIntegrationFunction q = [] \<longleftrightarrow> (\<forall>fn \<in> set functions_catalog. \<not> matches_query q fn))
   \<and> searchIntegrationFunction [] = functions_catalog"
proof -
  have "searchIntegrationFunction q = [] \<longleftrightarrow> (\<forall>fn \<in> set functions_catalog. \<not> matches_query q fn)"
    unfolding search_is_filter by (simp add: filter_empty_conv)
  then show ?thesis using search_is_filter search_empty_query by blast
qed

theorem C6_search_exact_witness:
  "filter (matches_query ''zzz'') functions_catalog = []
   \<and> map fn_name (filter (matches_query ''GMAIL'') functions_catalog)
       = [''getEmails'', ''sendEmail'', ''searchEmails'']"
proof -
  have a: "searchIntegrationFunction ''zzz'' = filter (matches_query ''zzz'') functions_catalog"
    using C6_search_exact [of "''zzz''"] by blast
  have b: "searchIntegrationFunction ''GMAIL'' = filter (matches_query ''GMAIL'') functions_catalog"
    using C6_search_exact [of "''GMAIL''"] by blast
  have c: "searchIntegrationFunction ''zzz'' = []"
    by code_simp
  have d: "map fn_name (searchIntegrationFunction ''GMAIL'')
           = [''getEmails'', ''sendEmail'', ''searchEmails'']"
    by code_simp
  show ?thesis using a b c d by simp
qed

section \<open>The tool-execution loop\<close>

lemma result_entry_id [simp]: "tr_toolCallId (result_entry tc r) = tc_id tc"
  by (cases r) (simp_all add: result_entry_def)

lemma result_entry_name [simp]: "tr_name (result_entry tc r) = tc_name tc"
  by (cases r) (simp_all add: result_entry_def)

lemma handleToolCalls_Cons:
  "handleToolCalls w tok (tc # rest) log =
     (result_entry tc (fst (execute_tool w tok tc log))
        # fst (handleToolCalls w tok rest (snd (execute_tool w tok tc log))),
      snd (handleToolCalls w tok rest (snd (execute_tool w tok tc log))))"
  by (simp add: split_beta)

lemma handleToolCalls_ids:
  "map tr_toolCallId (fst (handleToolCalls w tok tcs log)) = map tc_id tcs"
  by (induction tcs arbitrary: log)
     (simp_all add: handleToolCalls_Cons del: handleToolCalls.simps(2))

lemma handleToolCalls_length:
  "length (fst (handleToolCalls w tok tcs log)) = length tcs"
  by (metis handleToolCalls_ids length_map)

lemma handleToolCalls_append:
  "handleToolCalls w tok (xs @ ys) log =
     (fst (handleToolCalls w tok xs log) @ fst (handleToolCalls w tok ys (snd (handleToolCalls w tok xs log))),
      snd (handleToolCalls w tok ys (snd (handleToolCalls w tok xs log))))"
  by (induction xs arbitrary: log)
     (simp_all add: handleToolCalls_Cons del: handleToolCalls.simps(2))

lemma handleToolCalls_single:
  "handleToolCalls w tok [tc] log =
     ([result_entry tc (fst (execute_tool w tok tc log))], snd (execute_tool w tok tc log))"
  by (simp add: handleToolCalls_Cons del: handleToolCalls.simps(2))

lemma handleToolCalls_nth:
  assumes "i < length tcs"
  shows "fst (handleToolCalls w tok tcs log) ! i =
         result_entry (tcs ! i)
           (fst (execute_tool w tok (tcs ! i) (snd (handleToolCalls w tok (take i tcs) log))))"
proof -
  have split: "tcs = take i tcs @ [tcs ! i] @ drop (Suc i) tcs"
    using assms by (simp add: id_take_nth_drop)
  let ?pre = "handleToolCalls w tok (take i tcs) log"
  have len: "length (fst ?pre) = i"
    using assms by (simp add: handleToolCalls_length)
  have "fst (handleToolCalls w tok tcs log) =
        fst ?pre @ fst (handleToolCalls w tok ([tcs ! i] @ drop (Suc i) tcs) (snd ?pre))"
    by (subst split) (simp only: handleToolCalls_append fst_conv)
  also have "\<dots> ! i = fst (handleToolCalls w tok ([tcs ! i] @ drop (Suc i) tcs) (snd ?pre)) ! 0"
    using len by (simp add: nth_append)
  also have "\<dots> = result_entry (tcs ! i) (fst (execute_tool w tok (tcs ! i) (snd ?pre)))"
    by (simp only: handleToolCalls_append handleToolCalls_single fst_conv) simp
  finally show ?thesis .
qed

lemma tool_message_fields [simp]:
  "role (tool_message w r) = Tool" "tool_call_id (tool_message w r) = tr_toolCallId r"
  by (simp_all add: tool_message_def)

text \<open>
  C1: the tool-execution loop produces exactly one result per request, in the order of
  the requests, each carrying the id of its request, and so does the list of tool
  messages made from them. The entry at position \<open>i\<close> is decided by the outcome of
  request \<open>i\<close> alone, run in the state the earlier requests left, whether they failed or
  not: a request that throws contributes its error text and the loop goes on.
\<close>

theorem C1_one_result_per_request:
  assumes "handleToolCalls w tok toolCalls log = (results, log')"
  shows "length results = length toolCalls
       \<and> map tr_toolCallId results = map tc_id toolCalls
       \<and> (\<forall>i < length toolCalls.
             results ! i =
               result_entry (toolCalls ! i)
                 (fst (execute_tool w tok (toolCalls ! i)
                         (snd (handleToolCalls w tok (take i toolCalls) log)))))
       \<and> (\<forall>i < length toolCalls. \<forall>e.
             fst (execute_tool w tok (toolCalls ! i)
                    (snd (handleToolCalls w tok (take i toolCalls) log))) = Inl e \<longrightarrow>
             tr_error (results ! i) = JStr (message_of e)
               \<and> content (tool_message w (results ! i)) = JSON_stringify w (JStr (message_of e)))
       \<and> map role (map (tool_message w) results) = replicate (length toolCalls) Tool
       \<and> map tool_call_id (map (tool_message w) results) = map tc_id toolCalls"
proof -
  have r: "results = fst (handleToolCalls w tok toolCalls log)"
    using assms by simp
  have a: "length results = length toolCalls"
    unfolding r by (rule handleToolCalls_length)
  have b: "map tr_toolCallId results = map tc_id toolCalls"
    unfolding r by (rule handleToolCalls_ids)
  have c: "\<forall>i < length toolCalls.
             results ! i =
               result_entry (toolCalls ! i)
                 (fst (execute_tool w tok (toolCalls ! i)
                         (snd (handleToolCalls w tok (take i toolCalls) log))))"
    unfolding r by (simp add: handleToolCalls_nth)
  have d: "map role (map (tool_message w) results) = replicate (length toolCalls) Tool"
    using a by (simp add: map_replicate_const comp_def)
  have e: "map tool_call_id (map (tool_message w) results) = map tc_id toolCalls"
    using b by (simp add: comp_def)
  have f: "\<forall>i < length toolCalls. \<forall>e.
             fst (execute_tool w tok (toolCalls ! i)
                    (snd (handleToolCalls w tok (take i toolCalls) log))) = Inl e \<longrightarrow>
             tr_error (results ! i) = JStr (message_of e)
               \<and> content (tool_message w (results ! i)) = JSON_stringify w (JStr (message_of e))"
    using c by (simp add: result_entry_def tool_message_def js_or_def)
  show ?thesis using a b c d e f by blast
qed

theorem C1_witness:
  "fst (handleToolCalls (sample_world (\<lambda>n. Threw (FetchError ''down''))) (JStr ''tok'')
          [sample_call ''c1'' ''send_email'' (JObj []),
           sample_call ''c2'' ''get_emails'' JNull,
           sample_call ''c3'' ''delete_calendar_event'' (JObj [(''event_id'', JStr ''evt123'')])] [])
   = [\<lparr>tr_toolCallId = JStr ''c1'', tr_name = JStr ''send_email'', tr_result = JUndef,
        tr_error = JStr ''network unreachable''\<rparr>,
      \<lparr>tr_toolCallId = JStr ''c2'', tr_name = JStr ''get_emails'', tr_result = JUndef,
        tr_error = JStr ''Cannot read properties of null (reading max_results)''\<rparr>,
      \<lparr>tr_toolCallId = JStr ''c3'', tr_name = JStr ''delete_calendar_event'',
        tr_result = JObj [(''success'', JBool True), (''message'', JStr ''Event deleted successfully'')],
        tr_error = JUndef\<rparr>]
   \<and> length (fst (handleToolCalls (sample_world (\<lambda>n. Threw (FetchError ''down''))) (JStr ''tok'')
          [sample_call ''c1'' ''send_email'' (JObj []),
           sample_call ''c2'' ''get_emails'' JNull,
           sample_call ''c3'' ''delete_calendar_event'' (JObj [(''event_id'', JStr ''evt123'')])] [])) = 3"
proof -
  let ?w = "sample_world (\<lambda>n. Threw (FetchError ''down''))"
  let ?tcs = "[sample_call ''c1'' ''send_email'' (JObj []),
           sample_call ''c2'' ''get_emails'' JNull,
           sample_call ''c3'' ''delete_calendar_event'' (JObj [(''event_id'', JStr ''evt123'')])]"
  obtain results log' where h: "handleToolCalls ?w (JStr ''tok'') ?tcs [] = (results, log')"
    by (cases "handleToolCalls ?w (JStr ''tok'') ?tcs []")
  have "length results = length ?tcs"
    using C1_one_result_per_request [OF h] by blast
  moreover have "fst (handleToolCalls ?w (JStr ''tok'') ?tcs []) = 
     [\<lparr>tr_toolCallId = JStr ''c1'', tr_name = JStr ''send_email'', tr_result = JUndef,
        tr_error = JStr ''network unreachable''\<rparr>,
      \<lparr>tr_toolCallId = JStr ''c2'', tr_name = JStr ''get_emails'', tr_result = JUndef,
        tr_error = JStr ''Cannot read properties of null (reading max_results)''\<rparr>,
      \<lparr>tr_toolCallId = JStr ''c3'', tr_name = JStr ''delete_calendar_event'',
        tr_result = JObj [(''success'', JBool True), (''message'', JStr ''Event deleted successfully'')],
        tr_error = JUndef\<rparr>]"
    by code_simp
  ultimately show ?thesis using h by simp
qed

subsection \<open>Unknown tools\<close>

lemma registered_names_eq:
  "registered_names = map JStr [''get_emails'', ''send_email'', ''get_calendar_events'',
     ''create_calendar_event'', ''update_calendar_event'', ''delete_calendar_event'']"
  by (simp add: registered_names_def getToolDefinitions_def tool_definition_def opt_prop_def)

lemma execute_unknown:
  assumes "tc_name tc \<notin> set registered_names"
  shows "execute_tool w tok tc log =
           (Inr (JObj [(''error'', JStr (''Unknown tool call: '' @ js_to_string (tc_name tc)))]), log)"
  using assms by (simp add: registered_names_eq execute_tool_def Let_def io_return_def)

text \<open>
  C8: a request whose name is not one of the registered tool names makes no call and
  throws nothing; its result is an object holding the text \<open>Unknown tool call: name\<close>,
  which becomes the content of its tool message. Among other requests, the results before
  and after it and the final state are those of the run without it.
\<close>

theorem C8_unknown_tool:
  assumes "tc_name tc \<notin> set registered_names"
  shows "execute_tool w tok tc log =
           (Inr (JObj [(''error'', JStr (''Unknown tool call: '' @ js_to_string (tc_name tc)))]), log)
       \<and> handleToolCalls w tok (before @ tc # after) log =
           (fst (handleToolCalls w tok before log)
              @ \<lparr>tr_toolCallId = tc_id tc, tr_name = tc_name tc,
                  tr_result = JObj [(''error'', JStr (''Unknown tool call: '' @ js_to_string (tc_name tc)))],
                  tr_error = JUndef\<rparr>
              # fst (handleToolCalls w tok after (snd (handleToolCalls w tok before log))),
            snd (handleToolCalls w tok after (snd (handleToolCalls w tok before log))))
       \<and> handleToolCalls w tok (before @ after) log =
           (fst (handleToolCalls w tok before log)
              @ fst (handleToolCalls w tok after (snd (handleToolCalls w tok before log))),
            snd (handleToolCalls w tok after (snd (handleToolCalls w tok before log))))
       \<and> tool_message w (result_entry tc (fst (execute_tool w tok tc log))) =
           \<lparr>role = Tool,
            content = JSON_stringify w
              (JObj [(''error'', JStr (''Unknown tool call: '' @ js_to_string (tc_name tc)))]),
            name = JUndef, tool_calls = JUndef, tool_call_id = tc_id tc\<rparr>"
proof -
  note u = execute_unknown [OF assms]
  have a: "handleToolCalls w tok (tc # after) l =
           (\<lparr>tr_toolCallId = tc_id tc, tr_name = tc_name tc,
              tr_result = JObj [(''error'', JStr (''Unknown tool call: '' @ js_to_string (tc_name tc)))],
              tr_error = JUndef\<rparr> # fst (handleToolCalls w tok after l),
            snd (handleToolCalls w tok after l))" for l
    by (simp add: handleToolCalls_Cons u result_entry_def del: handleToolCalls.simps(2))
  have b: "handleToolCalls w tok (before @ tc # after) log =
           (fst (handleToolCalls w tok before log)
              @ \<lparr>tr_toolCallId = tc_id tc, tr_name = tc_name tc,
                  tr_result = JObj [(''error'', JStr (''Unknown tool call: '' @ js_to_string (tc_name tc)))],
                  tr_error = JUndef\<rparr>
              # fst (handleToolCalls w tok after (snd (handleToolCalls w tok before log))),
            snd (handleToolCalls w tok after (snd (handleToolCalls w tok before log))))"
    by (simp only: handleToolCalls_append [of w tok before "tc # after"] a fst_conv snd_conv)
  have c: "tool_message w (result_entry tc (fst (execute_tool w tok tc log))) =
           \<lparr>role = Tool,
            content = JSON_stringify w
              (JObj [(''error'', JStr (''Unknown tool call: '' @ js_to_string (tc_name tc)))]),
            name = JUndef, tool_calls = JUndef, tool_call_id = tc_id tc\<rparr>"
    by (simp add: u result_entry_def tool_message_def js_or_def)
  show ?thesis using u b c handleToolCalls_append [of w tok before after log] by simp
qed

text \<open>The executor of the tools service refuses an unknown name before any call.\<close>

lemma callIntegrationFunction_unknown:
  assumes "fname \<notin> set (map fn_name functions_catalog)"
  shows "callIntegrationFunction svc fname parameters calls =
           (Inl (Error (''Function '' @ fname @ '' not found'')), calls)"
proof -
  have "find (\<lambda>f. fn_name f = fname) functions_catalog = None"
    using assms by (auto simp: find_None_iff)
  then show ?thesis by (simp add: callIntegrationFunction_def)
qed

theorem C8_witness:
  "tc_name (sample_call ''c2'' ''foo_bar'' (JObj [])) \<notin> set registered_names
   \<and> execute_tool (sample_world (\<lambda>n. Threw (FetchError ''down''))) (JStr ''tok'')
         (sample_call ''c2'' ''foo_bar'' (JObj [])) []
       = (Inr (JObj [(''error'', JStr (''Unknown tool call: ''
                        @ js_to_string (tc_name (sample_call ''c2'' ''foo_bar'' (JObj [])))))]), [])
   \<and> map (\<lambda>r. (tr_toolCallId r, tr_result r, tr_error r))
         (fst (handleToolCalls (sample_world (\<lambda>n. Threw (FetchError ''down''))) (JStr ''tok'')
                 [sample_call ''c1'' ''delete_calendar_event'' (JObj [(''event_id'', JStr ''evt123'')]),
                  sample_call ''c2'' ''foo_bar'' (JObj []),
                  sample_call ''c3'' ''send_email'' (JObj [])] []))
       = [(JStr ''c1'', JObj [(''success'', JBool True),
                              (''message'', JStr ''Event deleted successfully'')], JUndef),
          (JStr ''c2'', JObj [(''error'', JStr ''Unknown tool call: foo_bar'')], JUndef),
          (JStr ''c3'', JUndef, JStr ''network unreachable'')]
   \<and> content (tool_message (sample_world (\<lambda>n. Threw (FetchError ''down'')))
                 \<lparr>tr_toolCallId = JStr ''c2'', tr_name = JStr ''foo_bar'',
                  tr_result = JObj [(''error'', JStr ''Unknown tool call: foo_bar'')],
                  tr_error = JUndef\<rparr>)
       = JStr ''{\"error\":\"Unknown tool call: foo_bar\"}''"
proof -
  let ?w = "sample_world (\<lambda>n. Threw (FetchError ''down''))"
  let ?tc = "sample_call ''c2'' ''foo_bar'' (JObj [])"
  have n: "tc_name ?tc \<notin> set registered_names"
    by (simp add: registered_names_eq sample_call_def)
  have a: "execute_tool ?w (JStr ''tok'') ?tc []
           = (Inr (JObj [(''error'', JStr (''Unknown tool call: '' @ js_to_string (tc_name ?tc)))]), [])"
    using C8_unknown_tool [OF n, where w = ?w and tok = "JStr ''tok''" and log = "[]"] by blast
  have b: "map (\<lambda>r. (tr_toolCallId r, tr_result r, tr_error r))
         (fst (handleToolCalls ?w (JStr ''tok'')
                 [sample_call ''c1'' ''delete_calendar_event'' (JObj [(''event_id'', JStr ''evt123'')]),
                  sample_call ''c2'' ''foo_bar'' (JObj []),
                  sample_call ''c3'' ''send_email'' (JObj [])] []))
       = [(JStr ''c1'', JObj [(''success'', JBool True),
                              (''message'', JStr ''Event deleted successfully'')], JUndef),
          (JStr ''c2'', JObj [(''error'', JStr ''Unknown tool call: foo_bar'')], JUndef),
          (JStr ''c3'', JUndef, JStr ''network unreachable'')]"
    by code_simp
  have c: "content (tool_message ?w
                 \<lparr>tr_toolCallId = JStr ''c2'', tr_name = JStr ''foo_bar'',
                  tr_result = JObj [(''error'', JStr ''Unknown tool call: foo_bar'')],
                  tr_error = JUndef\<rparr>)
       = JStr ''{\"error\":\"Unknown tool call: foo_bar\"}''"
    by code_simp
  show ?thesis by (intro conjI) (rule n, rule a, rule b, rule c)
qed

subsection \<open>Deleting an event\<close>

lemma get_prop_opt: "get_prop v k = Inr x \<Longrightarrow> opt_prop v k = x"
  by (simp add: opt_prop_def)

lemma execute_delete:
  assumes "tc_name tc = JStr ''delete_calendar_event''"
      and "get_prop (tc_arguments tc) ''event_id'' = Inr eventId"
  shows "execute_tool w tok tc log =
           (case fetch w log (delete_request tok eventId) of
              Threw e \<Rightarrow> Inl e
            | Responded r \<Rightarrow>
                Inr (JObj [(''success'', JBool True),
                           (''message'', JStr ''Event deleted successfully'')]),
            log @ [delete_request tok eventId])"
  using assms
  by (simp add: execute_tool_def Let_def first_read_def get_prop_opt
      GoogleCalendarService_deleteEvent_def io_bind_def io_return_def do_fetch_def
      split: fetch_outcome.splits)

text \<open>
  C10: a \<^verbatim>\<open>delete_calendar_event\<close> call whose request is answered, with whatever
  status, produces the result \<^verbatim>\<open>{success: true, message: 'Event deleted successfully'}\<close>,
  and that object is what its tool message carries: the response \<open>r\<close> is never read.
\<close>

theorem C10_delete_reports_success:
  assumes "tc_name tc = JStr ''delete_calendar_event''"
      and "get_prop (tc_arguments tc) ''event_id'' = Inr eventId"
      and "fetch w log (delete_request tok eventId) = Responded r"
  shows "handleToolCalls w tok [tc] log =
           ([\<lparr>tr_toolCallId = tc_id tc, tr_name = tc_name tc,
              tr_result = JObj [(''success'', JBool True),
                                (''message'', JStr ''Event deleted successfully'')],
              tr_error = JUndef\<rparr>],
            log @ [delete_request tok eventId])
       \<and> map (tool_message w) (fst (handleToolCalls w tok [tc] log)) =
           [\<lparr>role = Tool,
             content = JSON_stringify w
                         (JObj [(''success'', JBool True),
                                (''message'', JStr ''Event deleted successfully'')]),
             name = JUndef, tool_calls = JUndef, tool_call_id = tc_id tc\<rparr>]"
proof -
  have e: "execute_tool w tok tc log =
             (Inr (JObj [(''success'', JBool True),
                         (''message'', JStr ''Event deleted successfully'')]),
              log @ [delete_request tok eventId])"
    using execute_delete [OF assms(1,2), of w tok log] assms(3) by simp
  have h: "handleToolCalls w tok [tc] log =
           ([\<lparr>tr_toolCallId = tc_id tc, tr_name = tc_name tc,
              tr_result = JObj [(''success'', JBool True),
                                (''message'', JStr ''Event deleted successfully'')],
              tr_error = JUndef\<rparr>],
            log @ [delete_request tok eventId])"
    by (simp add: handleToolCalls_single e result_entry_def del: handleToolCalls.simps(2))
  show ?thesis
    unfolding h by (simp add: tool_message_def js_or_def)
qed

theorem C10_witness:
  "tc_name (sample_call ''c1'' ''delete_calendar_event'' (JObj [(''event_id'', JStr ''evt123'')]))
     = JStr ''delete_calendar_event''
   \<and> get_prop (tc_arguments (sample_call ''c1'' ''delete_calendar_event''
                                (JObj [(''event_id'', JStr ''evt123'')]))) ''event_id''
     = Inr (JStr ''evt123'')
   \<and> fetch (sample_world (\<lambda>n. Threw (FetchError ''down''))) []
        (delete_request (JStr ''tok'') (JStr ''evt123'')) = Responded not_found
   \<and> status not_found = 404
   \<and> handleToolCalls (sample_world (\<lambda>n. Threw (FetchError ''down''))) (JStr ''tok'')
        [sample_call ''c1'' ''delete_calendar_event'' (JObj [(''event_id'', JStr ''evt123'')])] []
     = ([\<lparr>tr_toolCallId = tc_id (sample_call ''c1'' ''delete_calendar_event''
                                     (JObj [(''event_id'', JStr ''evt123'')])),
          tr_name = tc_name (sample_call ''c1'' ''delete_calendar_event''
                               (JObj [(''event_id'', JStr ''evt123'')])),
          tr_result = JObj [(''success'', JBool True),
                            (''message'', JStr ''Event deleted successfully'')],
          tr_error = JUndef\<rparr>],
        [] @ [delete_request (JStr ''tok'') (JStr ''evt123'')])"
proof -
  let ?w = "sample_world (\<lambda>n. Threw (FetchError ''down''))"
  let ?tc = "sample_call ''c1'' ''delete_calendar_event'' (JObj [(''event_id'', JStr ''evt123'')])"
  have a: "tc_name ?tc = JStr ''delete_calendar_event''"
    by (simp add: sample_call_def)
  have b: "get_prop (tc_arguments ?tc) ''event_id'' = Inr (JStr ''evt123'')"
    by (simp add: sample_call_def)
  have c: "fetch ?w [] (delete_request (JStr ''tok'') (JStr ''evt123'')) = Responded not_found"
    by code_simp
  have d: "status not_found = 404"
    by (simp add: not_found_def)
  have e: "handleToolCalls ?w (JStr ''tok'') [?tc] []
     = ([\<lparr>tr_toolCallId = tc_id ?tc, tr_name = tc_name ?tc,
          tr_result = JObj [(''success'', JBool True),
                            (''message'', JStr ''Event deleted successfully'')],
          tr_error = JUndef\<rparr>],
        [] @ [delete_request (JStr ''tok'') (JStr ''evt123'')])"
    using C10_delete_reports_success [OF a b c] by blast
  show ?thesis by (intro conjI) (rule a, rule b, rule c, rule d, rule e)
qed

subsection \<open>Sending mail\<close>

lemma callIntegrationFunction_sendEmail_missing:
  assumes "get_prop parameters ''to'' = Inr v"
      and "missing parameters ''to'' \<or> missing parameters ''subject'' \<or> missing parameters ''body''"
  shows "callIntegrationFunction svc ''sendEmail'' parameters calls =
           (Inl (Error ''Missing required parameters: to, subject, body''), calls)"
  using assms by (simp add: callIntegrationFunction_def functions_catalog_def)

lemma callIntegrationFunction_sendEmail_present:
  assumes "truthy (opt_prop parameters ''to'')" "truthy (opt_prop parameters ''subject'')"
      and "truthy (opt_prop parameters ''body'')"
  shows "callIntegrationFunction svc ''sendEmail'' parameters calls =
           (svc calls (Gmail_sendEmail (opt_prop parameters ''to'') (opt_prop parameters ''subject'')
                         (opt_prop parameters ''body'')),
            calls @ [Gmail_sendEmail (opt_prop parameters ''to'') (opt_prop parameters ''subject'')
                         (opt_prop parameters ''body'')])"
proof -
  have "\<exists>v. get_prop parameters ''to'' = Inr v"
    using assms(1) by (cases parameters) (simp_all add: opt_prop_def)
  then show ?thesis
    using assms by (auto simp: callIntegrationFunction_def functions_catalog_def missing_def
        call_service_def)
qed

text \<open>
  C7 on the main server: \<^verbatim>\<open>handleToolCalls\<close> passes the arguments of a \<^verbatim>\<open>send_email\<close>
  call to \<^verbatim>\<open>GmailService.sendEmail\<close> unchecked. With the arguments \<^verbatim>\<open>{}\<close> it still
  makes the one send request, for a mail addressed to \<open>undefined\<close>, and reports what
  Gmail answers; no parameter is ever reported missing. The executor of the tools
  service does check them, as the two lemmas above state.
\<close>

theorem C7_send_email_not_validated:
  "handleToolCalls w tok [sample_call ''call_1'' ''send_email'' (JObj [])] log =
     ([result_entry (sample_call ''call_1'' ''send_email'' (JObj []))
         (case fetch w log
                 \<lparr>url = ''https://gmail.googleapis.com/gmail/v1/users/me/messages/send'',
                  http_method = POST, authorization = bearer tok,
                  body = RawMail (''To: undefined\<newline>''
                                  @ ''Content-Type: text/html; charset=utf-8\<newline>''
                                  @ ''MIME-Version: 1.0\<newline>''
                                  @ ''Subject: undefined\<newline>''
                                  @ ''\<newline>'')\<rparr>
          of Threw e \<Rightarrow> Inl e
           | Responded r \<Rightarrow>
               (case body_json r of
                  None \<Rightarrow> Inl (SyntaxError ''invalid json response body'')
                | Some v \<Rightarrow> Inr v))],
      log @ [\<lparr>url = ''https://gmail.googleapis.com/gmail/v1/users/me/messages/send'',
               http_method = POST, authorization = bearer tok,
               body = RawMail (''To: undefined\<newline>''
                               @ ''Content-Type: text/html; charset=utf-8\<newline>''
                               @ ''MIME-Version: 1.0\<newline>''
                               @ ''Subject: undefined\<newline>''
                               @ ''\<newline>'')\<rparr>])"
  by (simp add: handleToolCalls_single sample_call_def execute_tool_def first_read_def
      GmailService_sendEmail_def opt_prop_def recipients_line_def io_bind_def io_lift_def
      do_fetch_def response_json_def io_throw_def io_return_def Let_def
      split: fetch_outcome.splits option.splits del: handleToolCalls.simps(2))

section \<open>Calls to the model\<close>

lemma getChatResponse_no_key:
  assumes "MISTRAL_API_KEY w = None \<or> MISTRAL_API_KEY w = Some []"
  shows "getChatResponse w msgs tools log =
           (\<lparr>resp_content = JStr error_message, resp_toolCalls = None\<rparr>, log)"
  using assms by (auto simp: getChatResponse_def getChatResponse_try_def io_throw_def)

text \<open>What \<^verbatim>\<open>getChatResponse\<close> makes of the answer to its request.\<close>

lemma getChatResponse_answer:
  assumes "MISTRAL_API_KEY w = Some key" and "key \<noteq> []"
  shows "getChatResponse w msgs tools log =
           ((case fetch w log (chat_request msgs tools key) of
               Threw e \<Rightarrow> \<lparr>resp_content = JStr error_message, resp_toolCalls = None\<rparr>
             | Responded r \<Rightarrow>
                 if \<not> ok r then \<lparr>resp_content = JStr error_message, resp_toolCalls = None\<rparr>
                 else
                   (case body_json r of
                      None \<Rightarrow> \<lparr>resp_content = JStr error_message, resp_toolCalls = None\<rparr>
                    | Some result \<Rightarrow>
                        (case first_choice_message result of
                           Inl e \<Rightarrow> \<lparr>resp_content = JStr error_message, resp_toolCalls = None\<rparr>
                         | Inr m \<Rightarrow>
                             (case parse_tool_calls w m of
                                Inl e \<Rightarrow> \<lparr>resp_content = JStr error_message, resp_toolCalls = None\<rparr>
                              | Inr tcs \<Rightarrow>
                                  \<lparr>resp_content = js_or (opt_prop m ''content'') (JStr trouble_message),
                                   resp_toolCalls = tcs\<rparr>)))),
            log @ [chat_request msgs tools key])"
  using assms
  by (simp add: getChatResponse_def getChatResponse_try_def io_bind_def do_fetch_def
      io_throw_def io_return_def io_lift_def response_json_def
      split: fetch_outcome.splits option.splits sum.splits)

lemma getChatResponse_log:
  assumes "MISTRAL_API_KEY w = Some key" and "key \<noteq> []"
  shows "snd (getChatResponse w msgs tools log) = log @ [chat_request msgs tools key]"
  by (simp add: getChatResponse_answer [OF assms])

lemma getChatResponse_toolCalls_key:
  assumes "resp_toolCalls (fst (getChatResponse w msgs tools log)) = Some tcs"
  shows "\<exists>key. MISTRAL_API_KEY w = Some key \<and> key \<noteq> []"
proof (rule ccontr)
  assume "\<not> (\<exists>key. MISTRAL_API_KEY w = Some key \<and> key \<noteq> [])"
  then have "MISTRAL_API_KEY w = None \<or> MISTRAL_API_KEY w = Some []"
    by (cases "MISTRAL_API_KEY w") auto
  from getChatResponse_no_key [OF this, of msgs tools log] assms show False by simp
qed

lemma parse_tool_calls_nullish:
  assumes "nullish m"
  shows "parse_tool_calls w m = Inr None"
  using assms by (cases m) (simp_all add: parse_tool_calls_def opt_prop_def)

lemma opt_prop_nullish:
  assumes "nullish m"
  shows "opt_prop m k = JUndef"
  using assms by (cases m) (simp_all add: opt_prop_def)

lemma getChatResponse_failed:
  assumes "MISTRAL_API_KEY w = Some key" and "key \<noteq> []"
      and "llm_call_failed (fetch w log (chat_request msgs tools key))"
  shows "\<exists>c. getChatResponse w msgs tools log =
               (\<lparr>resp_content = JStr c, resp_toolCalls = None\<rparr>, log @ [chat_request msgs tools key])
             \<and> (c = error_message \<or> c = trouble_message)"
  using assms(3)
  by (auto simp: getChatResponse_answer [OF assms(1,2)] llm_call_failed_def
      parse_tool_calls_nullish opt_prop_nullish js_or_def
      split: fetch_outcome.splits option.splits sum.splits)

section \<open>The exchange\<close>

lemma run_exchange_plain:
  assumes "getChatResponse w msgs (offered_tools u) log = (first, log1)"
      and "resp_toolCalls first = None \<or> resp_toolCalls first = Some []"
  shows "run_exchange w u msgs log = (msgs @ [plain_message Assistant (resp_content first)], log1)"
  using assms by (auto simp: run_exchange_def)

lemma run_exchange_tools:
  assumes "getChatResponse w msgs (offered_tools u) log = (first, log1)"
      and "resp_toolCalls first = Some tcs" and "tcs \<noteq> []"
  shows "run_exchange w u msgs log =
           (msgs @ assistant_tool_message w (resp_content first) tcs
               # map (tool_message w) (fst (handleToolCalls w (accessToken u) tcs log1))
               @ [plain_message Assistant
                    (resp_content
                       (fst (getChatResponse w
                               (msgs @ assistant_tool_message w (resp_content first) tcs
                                  # map (tool_message w) (fst (handleToolCalls w (accessToken u) tcs log1)))
                               None (snd (handleToolCalls w (accessToken u) tcs log1)))))],
            snd (getChatResponse w
                   (msgs @ assistant_tool_message w (resp_content first) tcs
                      # map (tool_message w) (fst (handleToolCalls w (accessToken u) tcs log1)))
                   None (snd (handleToolCalls w (accessToken u) tcs log1))))"
proof -
  obtain tc rest where tcs: "tcs = tc # rest"
    using assms(3) by (cases tcs) auto
  show ?thesis
    using assms(1,2) unfolding tcs
    by (simp add: run_exchange_def Let_def split_beta del: handleToolCalls.simps(2))
qed

lemma api_chat_run:
  assumes "session_user sess = Some u"
  shows "api_chat w sess msg log =
           ((sess\<lparr>session_messages :=
                    Some (slice_last 10 (fst (run_exchange w u (opening_history sess msg) log)))\<rparr>,
             Json200 (last (fst (run_exchange w u (opening_history sess msg) log)))),
            snd (run_exchange w u (opening_history sess msg) log))"
  using assms by (simp add: api_chat_def opening_history_def Let_def split_beta)

lemma run_exchange_last:
  "\<exists>c. fst (run_exchange w u msgs log) \<noteq> []
       \<and> last (fst (run_exchange w u msgs log)) = plain_message Assistant c"
proof -
  obtain first log1 where g: "getChatResponse w msgs (offered_tools u) log = (first, log1)"
    by (cases "getChatResponse w msgs (offered_tools u) log")
  show ?thesis
  proof (cases "resp_toolCalls first = None \<or> resp_toolCalls first = Some []")
    case True
    from run_exchange_plain [OF g True] show ?thesis by auto
  next
    case False
    then obtain tcs where t: "resp_toolCalls first = Some tcs" "tcs \<noteq> []"
      by (cases "resp_toolCalls first") auto
    from run_exchange_tools [OF g t] show ?thesis by auto
  qed
qed

subsection \<open>Formatting the history\<close>

lemma role_format_message [simp]: "role (format_message m) = role m"
  by (simp add: format_message_def)

lemma format_plain_message [simp]: "format_message (plain_message r c) = plain_message r c"
  by (simp add: format_message_def plain_message_def keep_truthy_def)

lemma formatMessages_from_others:
  "filter (\<lambda>m. role m \<noteq> Tool) (formatMessages_from lastRole msgs) =
   map format_message (filter (\<lambda>m. role m = User \<or> role m = Assistant) msgs)"
proof (induction msgs arbitrary: lastRole)
  case Nil
  show ?case by simp
next
  case (Cons msg rest)
  show ?case by (cases "role msg") (simp_all add: Cons.IH)
qed

lemma formatMessages_from_subseq:
  "subseq (formatMessages_from lastRole msgs) (map format_message msgs)"
  by (induction msgs arbitrary: lastRole) auto

text \<open>
  Once a tool turn has been pushed, \<open>lastRole\<close> is \<open>tool\<close>, and every tool turn that
  comes next is skipped.
\<close>

lemma formatMessages_from_after_tool:
  assumes "map role ts = replicate (length ts) Tool"
  shows "formatMessages_from (Some Tool) ts = []"
  using assms by (induction ts) simp_all

lemma formatMessages_from_round:
  assumes "role a = Assistant" and "role t = Tool"
      and "map role ts = replicate (length ts) Tool"
  shows "formatMessages_from lastRole (before @ a # t # ts) =
         formatMessages_from lastRole (before @ [a]) @ [format_message t]"
  using assms
  by (induction before arbitrary: lastRole) (simp_all add: formatMessages_from_after_tool)

lemma forwarded_as_stated_tools:
  assumes "map role ts = replicate (length ts) Tool"
      and "set (map tool_call_id ts) \<subseteq> set ids"
  shows "forwarded_as_stated ids ts = ts"
  using assms by (induction ts) simp_all

lemma forwarded_as_stated_round:
  assumes "role a = Assistant"
      and "map role ts = replicate (length ts) Tool"
      and "set (map tool_call_id ts) \<subseteq> set (emitted_ids a)"
  shows "forwarded_as_stated ids (before @ a # ts) = forwarded_as_stated ids before @ a # ts"
  using assms
  by (induction before arbitrary: ids) (simp_all add: forwarded_as_stated_tools)

lemma emitted_ids_assistant_tool_message:
  "emitted_ids (assistant_tool_message w c tcs) = map tc_id tcs"
  by (simp add: emitted_ids_def assistant_tool_message_def formatToolCalls_def comp_def)

lemma tool_messages_ids:
  "map tool_call_id (map (tool_message w) (fst (handleToolCalls w tok tcs log))) = map tc_id tcs"
  using handleToolCalls_ids [of w tok tcs log]
  by (simp add: comp_def)

lemma tool_messages_roles:
  "map role (map (tool_message w) results) = replicate (length results) Tool"
  by (simp add: map_replicate_const comp_def)

text \<open>
  C5 on the handler's own history. When the first reply asks for two or more tools, the
  history sent with the second call holds the assistant turn bearing the tool calls and
  one tool turn per call, each with the id of its call. All of these are to be
  forwarded: each tool turn answers that assistant turn. \<^verbatim>\<open>formatMessages\<close> forwards the first tool turn only: after it
  \<open>lastRole\<close> is \<open>tool\<close>, not \<open>assistant\<close>, and the guard skips every later tool turn
  of the round, so the second request carries one tool result for several tool calls.
\<close>

theorem C5_later_tool_turns_dropped:
  "(let a = assistant_tool_message w (resp_content first) (tc1 # tc2 # rest);
        t1 = tool_message w (result_entry tc1 (fst (execute_tool w (accessToken u) tc1 log1)));
        ts = map (tool_message w)
               (fst (handleToolCalls w (accessToken u) (tc2 # rest)
                       (snd (execute_tool w (accessToken u) tc1 log1))));
        h = tool_round_history w u msgs first (tc1 # tc2 # rest) log1
    in h = msgs @ a # t1 # ts
     \<and> length ts = Suc (length rest)
     \<and> map role (a # t1 # ts) = Assistant # replicate (Suc (Suc (length rest))) Tool
     \<and> truthy (tool_calls a)
     \<and> emitted_ids a = map tc_id (tc1 # tc2 # rest)
     \<and> map tool_call_id (t1 # ts) = map tc_id (tc1 # tc2 # rest)
     \<and> map format_message (forwarded_as_stated [] h)
         = map format_message (forwarded_as_stated [] msgs) @ map format_message (a # t1 # ts)
     \<and> formatMessages h = formatMessages (msgs @ [a]) @ [format_message t1]
     \<and> body (chat_request h None key)
         = ChatBody (\<lparr>role = System, content = JStr getSystemPrompt, name = JUndef,
                       tool_calls = JUndef, tool_call_id = JUndef\<rparr>
                     # formatMessages (msgs @ [a]) @ [format_message t1]) None)"
proof -
  let ?a = "assistant_tool_message w (resp_content first) (tc1 # tc2 # rest)"
  let ?t1 = "tool_message w (result_entry tc1 (fst (execute_tool w (accessToken u) tc1 log1)))"
  let ?ts = "map (tool_message w)
               (fst (handleToolCalls w (accessToken u) (tc2 # rest)
                       (snd (execute_tool w (accessToken u) tc1 log1))))"
  let ?h = "tool_round_history w u msgs first (tc1 # tc2 # rest) log1"
  have h: "?h = msgs @ ?a # ?t1 # ?ts"
    by (simp add: tool_round_history_def handleToolCalls_Cons del: handleToolCalls.simps(2))
  have len: "length ?ts = Suc (length rest)"
    by (simp only: length_map handleToolCalls_length length_Cons)
  have ra: "role ?a = Assistant" and ta: "truthy (tool_calls ?a)"
    by (simp_all add: assistant_tool_message_def formatToolCalls_def)
  have rt: "role ?t1 = Tool"
    by simp
  have rts: "map role ?ts = replicate (length ?ts) Tool"
    by (simp only: length_map tool_messages_roles)
  have roles: "map role (?a # ?t1 # ?ts) = Assistant # replicate (Suc (Suc (length rest))) Tool"
    using ra rt rts len by simp
  have all: "map role (?t1 # ?ts) = replicate (length (?t1 # ?ts)) Tool"
    using rt rts by simp
  have em: "emitted_ids ?a = map tc_id (tc1 # tc2 # rest)"
    by (rule emitted_ids_assistant_tool_message)
  have ids: "map tool_call_id (?t1 # ?ts) = map tc_id (tc1 # tc2 # rest)"
    using tool_messages_ids [of w "accessToken u" "tc1 # tc2 # rest" log1]
    by (simp add: handleToolCalls_Cons del: handleToolCalls.simps(2))
  have "set (map tool_call_id (?t1 # ?ts)) \<subseteq> set (emitted_ids ?a)"
    unfolding em ids by simp
  from forwarded_as_stated_round [OF ra all this, of "[]" msgs]
  have stated: "map format_message (forwarded_as_stated [] ?h)
         = map format_message (forwarded_as_stated [] msgs) @ map format_message (?a # ?t1 # ?ts)"
    unfolding h by simp
  have code: "formatMessages ?h = formatMessages (msgs @ [?a]) @ [format_message ?t1]"
    unfolding h formatMessages_def by (rule formatMessages_from_round [OF ra rt rts])
  have sent: "body (chat_request ?h None key)
         = ChatBody (\<lparr>role = System, content = JStr getSystemPrompt, name = JUndef,
                       tool_calls = JUndef, tool_call_id = JUndef\<rparr>
                     # formatMessages (msgs @ [?a]) @ [format_message ?t1]) None"
    by (simp add: chat_request_def code)
  show ?thesis
    unfolding Let_def by (intro conjI) (rule h, rule len, rule roles, rule ta, rule em, rule ids, rule stated, rule code, rule sent)
qed

text \<open>
  The same on a run: the model asks for a deletion and for the day's events in one
  reply. Two tool turns are appended, for \<open>call_1\<close> and \<open>call_2\<close>; the second request
  carries the tool turn of \<open>call_1\<close> alone.
\<close>

theorem C5_two_call_exchange:
  "resp_toolCalls (fst (getChatResponse two_tool_calls
                          (opening_history new_session (JStr ''delete evt123, then list today''))
                          (offered_tools sample_user) []))
     = Some [sample_call ''call_1'' ''delete_calendar_event'' (JObj [(''event_id'', JStr ''evt123'')]),
             sample_call ''call_2'' ''get_calendar_events'' (JObj [])]
   \<and> map (\<lambda>m. (role m, tool_call_id m))
         (fst (run_exchange two_tool_calls sample_user
                 (opening_history new_session (JStr ''delete evt123, then list today'')) []))
     = [(User, JUndef), (Assistant, JUndef), (Tool, JStr ''call_1''), (Tool, JStr ''call_2''),
        (Assistant, JUndef)]
   \<and> map (\<lambda>m. (role m, tool_call_id m))
         (formatMessages
            (tool_round_history two_tool_calls sample_user
               (opening_history new_session (JStr ''delete evt123, then list today''))
               (fst (getChatResponse two_tool_calls
                       (opening_history new_session (JStr ''delete evt123, then list today''))
                       (offered_tools sample_user) []))
               (sample_call ''call_1'' ''delete_calendar_event'' (JObj [(''event_id'', JStr ''evt123'')])
                # sample_call ''call_2'' ''get_calendar_events'' (JObj []) # [])
               (snd (getChatResponse two_tool_calls
                       (opening_history new_session (JStr ''delete evt123, then list today''))
                       (offered_tools sample_user) []))))
     = [(User, JUndef), (Assistant, JUndef), (Tool, JStr ''call_1'')]
   \<and> map (\<lambda>q. case body q of
                   ChatBody ms tools \<Rightarrow> map (\<lambda>m. (role m, tool_call_id m)) ms
                 | _ \<Rightarrow> [])
         (filter (\<lambda>q. url q = apiUrl)
            (snd (run_exchange two_tool_calls sample_user
                    (opening_history new_session (JStr ''delete evt123, then list today'')) [])))
     = [[(System, JUndef), (User, JUndef)],
        [(System, JUndef), (User, JUndef), (Assistant, JUndef), (Tool, JStr ''call_1'')]]"
proof -
  let ?msgs = "opening_history new_session (JStr ''delete evt123, then list today'')"
  let ?g = "getChatResponse two_tool_calls ?msgs (offered_tools sample_user) []"
  let ?tc1 = "sample_call ''call_1'' ''delete_calendar_event'' (JObj [(''event_id'', JStr ''evt123'')])"
  let ?tc2 = "sample_call ''call_2'' ''get_calendar_events'' (JObj [])"
  let ?h = "tool_round_history two_tool_calls sample_user ?msgs (fst ?g) (?tc1 # ?tc2 # []) (snd ?g)"
  let ?a = "assistant_tool_message two_tool_calls (resp_content (fst ?g)) (?tc1 # ?tc2 # [])"
  let ?t1 = "tool_message two_tool_calls
               (result_entry ?tc1 (fst (execute_tool two_tool_calls (accessToken sample_user) ?tc1 (snd ?g))))"
  have c: "resp_toolCalls (fst ?g) = Some [?tc1, ?tc2]"
    by code_simp
  have r: "map (\<lambda>m. (role m, tool_call_id m)) (fst (run_exchange two_tool_calls sample_user ?msgs []))
     = [(User, JUndef), (Assistant, JUndef), (Tool, JStr ''call_1''), (Tool, JStr ''call_2''),
        (Assistant, JUndef)]"
    by code_simp
  have "formatMessages ?h = formatMessages (?msgs @ [?a]) @ [format_message ?t1]"
    by (rule C5_later_tool_turns_dropped
               [of two_tool_calls "fst ?g" ?tc1 ?tc2 "[]" sample_user "snd ?g" ?msgs,
                unfolded Let_def, THEN conjunct2, THEN conjunct2, THEN conjunct2,
                THEN conjunct2, THEN conjunct2, THEN conjunct2, THEN conjunct2,
                THEN conjunct1])
  moreover have "map (\<lambda>m. (role m, tool_call_id m)) (formatMessages (?msgs @ [?a]) @ [format_message ?t1])
     = [(User, JUndef), (Assistant, JUndef), (Tool, JStr ''call_1'')]"
    by code_simp
  ultimately have f: "map (\<lambda>m. (role m, tool_call_id m)) (formatMessages ?h)
     = [(User, JUndef), (Assistant, JUndef), (Tool, JStr ''call_1'')]"
    by (simp only:)
  have s: "map (\<lambda>q. case body q of
                   ChatBody ms tools \<Rightarrow> map (\<lambda>m. (role m, tool_call_id m)) ms
                 | _ \<Rightarrow> [])
         (filter (\<lambda>q. url q = apiUrl) (snd (run_exchange two_tool_calls sample_user ?msgs [])))
     = [[(System, JUndef), (User, JUndef)],
        [(System, JUndef), (User, JUndef), (Assistant, JUndef), (Tool, JStr ''call_1'')]]"
    by code_simp
  show ?thesis by (intro conjI) (rule c, rule r, rule f, rule s)
qed

section \<open>Requests of the tool round\<close>

lemma no_llm_requestI:
  assumes "\<And>log. \<exists>m'. no_llm_request m' \<and> m log = m' log"
  shows "no_llm_request m"
  unfolding no_llm_request_def
proof
  fix log
  from assms [of log] obtain m' where "no_llm_request m'" "m log = m' log" by blast
  then show "\<exists>new. snd (m log) = log @ new \<and> list_all (\<lambda>q. url q \<noteq> apiUrl) new"
    unfolding no_llm_request_def by metis
qed

lemma no_llm_return [simp]: "no_llm_request (io_return x)"
  by (simp add: no_llm_request_def io_return_def)

lemma no_llm_throw [simp]: "no_llm_request (io_throw e)"
  by (simp add: no_llm_request_def io_throw_def)

lemma no_llm_lift [simp]: "no_llm_request (io_lift r)"
  by (simp add: no_llm_request_def io_lift_def)

lemma no_llm_response_json [simp]: "no_llm_request (response_json r)"
  by (simp add: response_json_def split: option.splits)

lemma no_llm_bind:
  assumes "no_llm_request m" and "\<And>x. no_llm_request (f x)"
  shows "no_llm_request (io_bind m f)"
  unfolding no_llm_request_def
proof
  fix log
  from assms(1) obtain n1 where m: "snd (m log) = log @ n1" "list_all (\<lambda>q. url q \<noteq> apiUrl) n1"
    unfolding no_llm_request_def by blast
  show "\<exists>new. snd (io_bind m f log) = log @ new \<and> list_all (\<lambda>q. url q \<noteq> apiUrl) new"
  proof (cases "fst (m log)")
    case (Inl e)
    then have "io_bind m f log = (Inl e, log @ n1)"
      using m(1) by (cases "m log") (simp add: io_bind_def)
    then show ?thesis using m(2) by simp
  next
    case (Inr x)
    then have b: "io_bind m f log = f x (log @ n1)"
      using m(1) by (cases "m log") (simp add: io_bind_def)
    from assms(2) [of x] obtain n2 where
      "snd (f x (log @ n1)) = (log @ n1) @ n2" "list_all (\<lambda>q. url q \<noteq> apiUrl) n2"
      unfolding no_llm_request_def by blast
    then show ?thesis using b m(2) by (intro exI [of _ "n1 @ n2"]) simp
  qed
qed

lemma no_llm_fetch:
  assumes "url req \<noteq> apiUrl"
  shows "no_llm_request (do_fetch w req)"
  using assms by (simp add: no_llm_request_def do_fetch_def)

lemma no_llm_first_read:
  assumes "no_llm_request m"
  shows "no_llm_request (first_read args k m)"
  using assms by (simp add: first_read_def split: sum.splits)

lemma no_llm_promise_all:
  assumes "\<And>m. m \<in> set ms \<Longrightarrow> no_llm_request m"
  shows "no_llm_request (promise_all ms)"
  using assms
proof (induction ms)
  case Nil
  show ?case by (simp add: no_llm_request_def)
next
  case (Cons m ms)
  have rest: "no_llm_request (promise_all ms)"
    using Cons by simp
  have head: "no_llm_request m"
    using Cons.prems by simp
  show ?case
    unfolding no_llm_request_def
  proof
    fix log
    from head obtain n1 where m: "snd (m log) = log @ n1" "list_all (\<lambda>q. url q \<noteq> apiUrl) n1"
      unfolding no_llm_request_def by blast
    from rest obtain n2 where r: "snd (promise_all ms (log @ n1)) = (log @ n1) @ n2"
      "list_all (\<lambda>q. url q \<noteq> apiUrl) n2"
      unfolding no_llm_request_def by blast
    have "snd (promise_all (m # ms) log) = log @ (n1 @ n2)"
      using m(1) r(1) by (simp add: split_beta)
    then show "\<exists>new. snd (promise_all (m # ms) log) = log @ new \<and> list_all (\<lambda>q. url q \<noteq> apiUrl) new"
      using m(2) r(2) by (intro exI [of _ "n1 @ n2"]) simp
  qed
qed

lemma no_llm_getEmail: "no_llm_request (GmailService_getEmail w tok i)"
  unfolding GmailService_getEmail_def
  by (intro no_llm_bind no_llm_fetch no_llm_response_json) (simp add: apiUrl_def)

lemma no_llm_email_summary: "no_llm_request (email_summary w tok email)"
  unfolding email_summary_def
  by (intro no_llm_bind no_llm_getEmail no_llm_lift no_llm_return)

lemma no_llm_getEmails: "no_llm_request (GmailService_getEmails w tok a b c)"
  unfolding GmailService_getEmails_def Let_def
  by (intro no_llm_bind no_llm_fetch no_llm_response_json no_llm_lift no_llm_return)
     (simp add: apiUrl_def)

lemma no_llm_sendEmail: "no_llm_request (GmailService_sendEmail w tok a b c d e)"
  unfolding GmailService_sendEmail_def Let_def
  by (intro no_llm_bind no_llm_fetch no_llm_response_json no_llm_lift no_llm_return)
     (simp add: apiUrl_def)

lemma no_llm_getEvents: "no_llm_request (GoogleCalendarService_getEvents w tok a b c)"
proof (rule no_llm_requestI)
  fix log
  let ?m = "io_bind (do_fetch w \<lparr>url =
                 (let url0 = calendar_events_url @ ''?''
                     @ ''timeMin='' @ encodeURIComponent (js_to_string (js_or a (JStr (fst (clock w log))))) @ ''&''
                     @ ''timeMax='' @ encodeURIComponent (js_to_string (js_or b (JStr (snd (clock w log))))) @ ''&''
                     @ ''singleEvents=true&orderBy=startTime''
                  in if truthy c then url0 @ ''&q='' @ encodeURIComponent (js_to_string c) else url0),
                http_method = GET, authorization = bearer tok, body = NoBody\<rparr>) (\<lambda>resp.
           io_bind (response_json resp) (\<lambda>data.
           io_bind (io_lift (get_prop data ''items'')) (\<lambda>items.
           io_return (js_or items (JArr [])))))"
  have "no_llm_request ?m"
    by (intro no_llm_bind no_llm_fetch no_llm_response_json no_llm_lift no_llm_return)
       (simp add: apiUrl_def calendar_events_url_def Let_def)
  moreover have "GoogleCalendarService_getEvents w tok a b c log = ?m log"
    by (simp add: GoogleCalendarService_getEvents_def Let_def)
  ultimately show "\<exists>m'. no_llm_request m' \<and> GoogleCalendarService_getEvents w tok a b c log = m' log"
    by blast
qed

lemma no_llm_createEvent: "no_llm_request (GoogleCalendarService_createEvent w tok ev)"
  unfolding GoogleCalendarService_createEvent_def
  by (intro no_llm_bind no_llm_fetch no_llm_response_json)
     (simp add: apiUrl_def calendar_events_url_def)

lemma no_llm_updateEvent: "no_llm_request (GoogleCalendarService_updateEvent w tok i ev)"
  unfolding GoogleCalendarService_updateEvent_def
  by (intro no_llm_bind no_llm_fetch no_llm_response_json)
     (simp add: apiUrl_def calendar_events_url_def)

lemma no_llm_deleteEvent: "no_llm_request (GoogleCalendarService_deleteEvent w tok i)"
  unfolding GoogleCalendarService_deleteEvent_def
  by (intro no_llm_bind no_llm_fetch no_llm_return)
     (simp add: apiUrl_def calendar_events_url_def delete_request_def)

lemma no_llm_execute_tool: "no_llm_request (execute_tool w tok tc)"
proof -
  have emails: "no_llm_request
      (case emails of
         JArr es \<Rightarrow> io_bind (promise_all (map (email_summary w tok) es)) (\<lambda>rs. io_return (JArr rs))
       | _ \<Rightarrow> io_throw (TypeError ''emails.map is not a function''))" for emails
    by (cases emails)
       (auto intro!: no_llm_bind no_llm_promise_all no_llm_email_summary)
  show ?thesis
    unfolding execute_tool_def Let_def
    by (auto intro!: no_llm_first_read no_llm_bind no_llm_getEmails no_llm_sendEmail
        no_llm_getEvents no_llm_createEvent no_llm_updateEvent no_llm_deleteEvent emails)
qed

lemma handleToolCalls_requests:
  "\<exists>new. snd (handleToolCalls w tok tcs log) = log @ new \<and> list_all (\<lambda>q. url q \<noteq> apiUrl) new"
proof (induction tcs arbitrary: log)
  case Nil
  show ?case by simp
next
  case (Cons tc rest)
  from no_llm_execute_tool [of w tok tc] obtain n1 where
    e: "snd (execute_tool w tok tc log) = log @ n1" "list_all (\<lambda>q. url q \<noteq> apiUrl) n1"
    unfolding no_llm_request_def by blast
  from Cons [of "log @ n1"] obtain n2 where
    r: "snd (handleToolCalls w tok rest (log @ n1)) = (log @ n1) @ n2"
       "list_all (\<lambda>q. url q \<noteq> apiUrl) n2"
    by blast
  have "snd (handleToolCalls w tok (tc # rest) log) = log @ (n1 @ n2)"
    using e(1) r(1) by (simp add: handleToolCalls_Cons del: handleToolCalls.simps(2))
  then show ?case using e(2) r(2) by (intro exI [of _ "n1 @ n2"]) simp
qed

text \<open>
  C3: when the first reply asks for tools, the exchange makes exactly these requests:
  the first call to the model, the requests of the one run of the tool loop (none of
  which goes to the model), and a second call to the model whose body carries no tools.
  The turn appended for the second reply is a plain assistant turn: it bears no tool
  calls, whatever that reply contains, and nothing is executed after it.
\<close>

theorem C3_second_call_without_tools:
  assumes "getChatResponse w msgs (offered_tools u) log = (first, log1)"
      and "resp_toolCalls first = Some tcs" and "tcs \<noteq> []"
  shows "\<exists>key tool_requests final sent.
           MISTRAL_API_KEY w = Some key
         \<and> log1 = log @ [chat_request msgs (offered_tools u) key]
         \<and> snd (handleToolCalls w (accessToken u) tcs log1) = log1 @ tool_requests
         \<and> list_all (\<lambda>q. url q \<noteq> apiUrl) tool_requests
         \<and> run_exchange w u msgs log =
             (tool_round_history w u msgs first tcs log1 @ [final],
              log1 @ tool_requests
                @ [chat_request (tool_round_history w u msgs first tcs log1) None key])
         \<and> body (chat_request (tool_round_history w u msgs first tcs log1) None key)
             = ChatBody sent None
         \<and> role final = Assistant \<and> tool_calls final = JUndef"
proof -
  have "resp_toolCalls (fst (getChatResponse w msgs (offered_tools u) log)) = Some tcs"
    using assms(1,2) by simp
  from getChatResponse_toolCalls_key [OF this]
  obtain key where key: "MISTRAL_API_KEY w = Some key" "key \<noteq> []" by blast
  have l1: "log1 = log @ [chat_request msgs (offered_tools u) key]"
    using getChatResponse_log [OF key, of msgs "offered_tools u" log] assms(1) by simp
  from handleToolCalls_requests [of w "accessToken u" tcs log1]
  obtain tool_requests where
    tr: "snd (handleToolCalls w (accessToken u) tcs log1) = log1 @ tool_requests"
        "list_all (\<lambda>q. url q \<noteq> apiUrl) tool_requests"
    by blast
  let ?h = "tool_round_history w u msgs first tcs log1"
  let ?final = "plain_message Assistant
                  (resp_content (fst (getChatResponse w ?h None (log1 @ tool_requests))))"
  have l3: "snd (getChatResponse w ?h None (log1 @ tool_requests))
            = (log1 @ tool_requests) @ [chat_request ?h None key]"
    by (rule getChatResponse_log [OF key])
  have run: "run_exchange w u msgs log =
               (?h @ [?final], log1 @ tool_requests @ [chat_request ?h None key])"
    using run_exchange_tools [OF assms] l3 tr(1)
    by (simp add: tool_round_history_def)
  have b: "body (chat_request ?h None key)
           = ChatBody (\<lparr>role = System, content = JStr getSystemPrompt, name = JUndef,
                         tool_calls = JUndef, tool_call_id = JUndef\<rparr> # formatMessages ?h) None"
    by (simp add: chat_request_def)
  have f: "role ?final = Assistant" "tool_calls ?final = JUndef"
    by (simp_all add: plain_message_def)
  show ?thesis using key(1) l1 tr run b f by blast
qed

theorem C3_witness:
  "getChatResponse delete_then_chat (opening_history new_session (JStr ''delete evt123''))
       (offered_tools sample_user) []
     = (\<lparr>resp_content = JStr trouble_message,
         resp_toolCalls = Some [sample_call ''call_1'' ''delete_calendar_event''
                                  (JObj [(''event_id'', JStr ''evt123'')])]\<rparr>,
        [chat_request (opening_history new_session (JStr ''delete evt123''))
           (offered_tools sample_user) ''test-key''])
   \<and> (\<exists>final. fst (run_exchange delete_then_chat sample_user
                       (opening_history new_session (JStr ''delete evt123'')) [])
              = tool_round_history delete_then_chat sample_user
                  (opening_history new_session (JStr ''delete evt123''))
                  \<lparr>resp_content = JStr trouble_message,
                    resp_toolCalls = Some [sample_call ''call_1'' ''delete_calendar_event''
                                             (JObj [(''event_id'', JStr ''evt123'')])]\<rparr>
                  [sample_call ''call_1'' ''delete_calendar_event''
                     (JObj [(''event_id'', JStr ''evt123'')])]
                  [chat_request (opening_history new_session (JStr ''delete evt123''))
                     (offered_tools sample_user) ''test-key'']
                @ [final]
            \<and> role final = Assistant \<and> tool_calls final = JUndef)
   \<and> map role (fst (run_exchange delete_then_chat sample_user
                       (opening_history new_session (JStr ''delete evt123'')) []))
     = [User, Assistant, Tool, Assistant]
   \<and> map (\<lambda>q. (url q = apiUrl, case body q of ChatBody ms tools \<Rightarrow> tools \<noteq> None | _ \<Rightarrow> False))
         (snd (run_exchange delete_then_chat sample_user
                 (opening_history new_session (JStr ''delete evt123'')) []))
     = [(True, True), (False, False), (True, False)]"
proof -
  let ?msgs = "opening_history new_session (JStr ''delete evt123'')"
  let ?first = "\<lparr>resp_content = JStr trouble_message,
         resp_toolCalls = Some [sample_call ''call_1'' ''delete_calendar_event''
                                  (JObj [(''event_id'', JStr ''evt123'')])]\<rparr>"
  let ?tcs = "[sample_call ''call_1'' ''delete_calendar_event'' (JObj [(''event_id'', JStr ''evt123'')])]"
  let ?log1 = "[chat_request ?msgs (offered_tools sample_user) ''test-key'']"
  have g: "getChatResponse delete_then_chat ?msgs (offered_tools sample_user) [] = (?first, ?log1)"
    by code_simp
  have t: "resp_toolCalls ?first = Some ?tcs" by simp
  have n: "?tcs \<noteq> []" by simp
  from C3_second_call_without_tools [OF g t n]
  obtain key tool_requests final and sent :: "message list" where
    r: "run_exchange delete_then_chat sample_user ?msgs [] =
          (tool_round_history delete_then_chat sample_user ?msgs ?first ?tcs ?log1 @ [final],
           ?log1 @ tool_requests
             @ [chat_request (tool_round_history delete_then_chat sample_user ?msgs ?first ?tcs ?log1)
                  None key])"
    and f: "role final = Assistant" "tool_calls final = JUndef"
    by (elim exE conjE)
  have a: "\<exists>final. fst (run_exchange delete_then_chat sample_user ?msgs [])
              = tool_round_history delete_then_chat sample_user ?msgs ?first ?tcs ?log1 @ [final]
            \<and> role final = Assistant \<and> tool_calls final = JUndef"
    by (rule exI [of _ final]) (simp only: r fst_conv f simp_thms)
  have b: "map role (fst (run_exchange delete_then_chat sample_user ?msgs []))
     = [User, Assistant, Tool, Assistant]"
    by code_simp
  have c: "map (\<lambda>q. (url q = apiUrl, case body q of ChatBody ms tools \<Rightarrow> tools \<noteq> None | _ \<Rightarrow> False))
         (snd (run_exchange delete_then_chat sample_user ?msgs []))
     = [(True, True), (False, False), (True, False)]"
    by code_simp
  show ?thesis by (intro conjI) (rule g, rule a, rule b, rule c)
qed

section \<open>Failed calls to the model\<close>

lemma api_chat_fallback:
  assumes "session_user sess = Some u"
      and "MISTRAL_API_KEY w = Some key" and "key \<noteq> []"
      and "llm_call_failed (last_llm_outcome w u key (opening_history sess msg) log)"
  shows "\<exists>c sess' log'.
           api_chat w sess msg log = ((sess', Json200 (plain_message Assistant (JStr c))), log')
         \<and> (c = error_message \<or> c = trouble_message) \<and> c \<noteq> []"
proof -
  let ?msgs = "opening_history sess msg"
  obtain first log1 where g: "getChatResponse w ?msgs (offered_tools u) log = (first, log1)"
    by (cases "getChatResponse w ?msgs (offered_tools u) log")
  have "\<exists>c. last (fst (run_exchange w u ?msgs log)) = plain_message Assistant (JStr c)
           \<and> (c = error_message \<or> c = trouble_message)"
  proof (cases "resp_toolCalls first = None \<or> resp_toolCalls first = Some []")
    case True
    then have "last_llm_outcome w u key ?msgs log = fetch w log (chat_request ?msgs (offered_tools u) key)"
      using g by (auto simp: last_llm_outcome_def)
    with assms(4) have "llm_call_failed (fetch w log (chat_request ?msgs (offered_tools u) key))"
      by simp
    from getChatResponse_failed [OF assms(2,3) this] g
    obtain c where "first = \<lparr>resp_content = JStr c, resp_toolCalls = None\<rparr>"
      "c = error_message \<or> c = trouble_message"
      by auto
    then show ?thesis using run_exchange_plain [OF g True] by auto
  next
    case False
    then obtain tcs where t: "resp_toolCalls first = Some tcs" "tcs \<noteq> []"
      by (cases "resp_toolCalls first") auto
    then obtain tc rest where tcs: "tcs = tc # rest" by (cases tcs) auto
    let ?h = "?msgs @ assistant_tool_message w (resp_content first) tcs
                # map (tool_message w) (fst (handleToolCalls w (accessToken u) tcs log1))"
    let ?log2 = "snd (handleToolCalls w (accessToken u) tcs log1)"
    have "last_llm_outcome w u key ?msgs log = fetch w ?log2 (chat_request ?h None key)"
      using g t(1) unfolding tcs
      by (simp add: last_llm_outcome_def split_beta del: handleToolCalls.simps(2))
    with assms(4) have "llm_call_failed (fetch w ?log2 (chat_request ?h None key))"
      by simp
    from getChatResponse_failed [OF assms(2,3) this]
    obtain c where "fst (getChatResponse w ?h None ?log2) = \<lparr>resp_content = JStr c, resp_toolCalls = None\<rparr>"
      "c = error_message \<or> c = trouble_message"
      by auto
    then show ?thesis using run_exchange_tools [OF g t] by auto
  qed
  then obtain c where c: "last (fst (run_exchange w u ?msgs log)) = plain_message Assistant (JStr c)"
    "c = error_message \<or> c = trouble_message"
    by blast
  have "c \<noteq> []"
    using c(2) by (auto simp: error_message_def trouble_message_def)
  then show ?thesis
    using api_chat_run [OF assms(1), of w msg log] c by auto
qed

text \<open>
  C4: a call to the model that fails (in transport, by its status, by a body that is not
  JSON or that lacks \<^verbatim>\<open>choices[0].message\<close>) throws nothing: \<^verbatim>\<open>getChatResponse\<close>
  returns one of two fixed, non-empty apologies and no tool calls. When the last call to
  the model in an exchange fails, the handler answers with status 200 and a plain
  assistant message holding that apology. A failed first call is the last call, since
  its fallback reply asks for no tools.
\<close>

theorem C4_fallback_reply:
  assumes "MISTRAL_API_KEY w = Some key" and "key \<noteq> []"
  shows "(llm_call_failed (fetch w log (chat_request msgs tools key)) \<longrightarrow>
            (\<exists>c. getChatResponse w msgs tools log =
                   (\<lparr>resp_content = JStr c, resp_toolCalls = None\<rparr>,
                    log @ [chat_request msgs tools key])
                 \<and> (c = error_message \<or> c = trouble_message) \<and> c \<noteq> []))
       \<and> (session_user sess = Some u
            \<and> llm_call_failed (last_llm_outcome w u key (opening_history sess msg) log0) \<longrightarrow>
            (\<exists>c sess' log'.
               api_chat w sess msg log0 = ((sess', Json200 (plain_message Assistant (JStr c))), log')
             \<and> (c = error_message \<or> c = trouble_message) \<and> c \<noteq> []))"
proof -
  have a: "\<exists>c. getChatResponse w msgs tools log =
                   (\<lparr>resp_content = JStr c, resp_toolCalls = None\<rparr>,
                    log @ [chat_request msgs tools key])
                 \<and> (c = error_message \<or> c = trouble_message) \<and> c \<noteq> []"
    if f: "llm_call_failed (fetch w log (chat_request msgs tools key))"
  proof -
    from getChatResponse_failed [OF assms f] obtain c where
      c: "getChatResponse w msgs tools log =
            (\<lparr>resp_content = JStr c, resp_toolCalls = None\<rparr>, log @ [chat_request msgs tools key])"
         "c = error_message \<or> c = trouble_message"
      by blast
    have "c \<noteq> []"
      using c(2) by (auto simp: error_message_def trouble_message_def)
    then show ?thesis using c by blast
  qed
  have b: "\<exists>c sess' log'.
               api_chat w sess msg log0 = ((sess', Json200 (plain_message Assistant (JStr c))), log')
             \<and> (c = error_message \<or> c = trouble_message) \<and> c \<noteq> []"
    if "session_user sess = Some u"
      "llm_call_failed (last_llm_outcome w u key (opening_history sess msg) log0)"
    by (rule api_chat_fallback [OF that(1) assms that(2)])
  show ?thesis using a b by blast
qed

theorem C4_witness:
  "MISTRAL_API_KEY failing_llm = Some ''test-key''
   \<and> session_user new_session = Some sample_user
   \<and> llm_call_failed (fetch failing_llm []
                        (chat_request (opening_history new_session (JStr ''hello''))
                           (offered_tools sample_user) ''test-key''))
   \<and> (\<exists>c. getChatResponse failing_llm (opening_history new_session (JStr ''hello''))
               (offered_tools sample_user) []
             = (\<lparr>resp_content = JStr c, resp_toolCalls = None\<rparr>,
                [] @ [chat_request (opening_history new_session (JStr ''hello''))
                        (offered_tools sample_user) ''test-key''])
           \<and> (c = error_message \<or> c = trouble_message) \<and> c \<noteq> [])
   \<and> snd (fst (api_chat failing_llm new_session (JStr ''hello'') []))
       = Json200 (plain_message Assistant (JStr error_message))
   \<and> MISTRAL_API_KEY tools_then_failure = Some ''test-key''
   \<and> llm_call_failed (last_llm_outcome tools_then_failure sample_user ''test-key''
                        (opening_history new_session (JStr ''delete evt123'')) [])
   \<and> (\<exists>c sess' log'.
         api_chat tools_then_failure new_session (JStr ''delete evt123'') []
           = ((sess', Json200 (plain_message Assistant (JStr c))), log')
       \<and> (c = error_message \<or> c = trouble_message) \<and> c \<noteq> [])
   \<and> map role (fst (run_exchange tools_then_failure sample_user
                       (opening_history new_session (JStr ''delete evt123'')) []))
       = [User, Assistant, Tool, Assistant]"
proof -
  let ?hello = "opening_history new_session (JStr ''hello'')"
  have u: "session_user new_session = Some sample_user"
    by (simp add: new_session_def)
  have k1: "MISTRAL_API_KEY failing_llm = Some ''test-key''"
    by (simp add: failing_llm_def sample_world_def)
  have k2: "MISTRAL_API_KEY tools_then_failure = Some ''test-key''"
    by (simp add: tools_then_failure_def sample_world_def)
  have ne: "''test-key'' \<noteq> []" by simp
  have f1: "llm_call_failed (fetch failing_llm []
                        (chat_request ?hello (offered_tools sample_user) ''test-key''))"
    by code_simp
  have f2: "llm_call_failed (last_llm_outcome tools_then_failure sample_user ''test-key''
                        (opening_history new_session (JStr ''delete evt123'')) [])"
    by code_simp
  have g: "\<exists>c. getChatResponse failing_llm ?hello (offered_tools sample_user) []
             = (\<lparr>resp_content = JStr c, resp_toolCalls = None\<rparr>,
                [] @ [chat_request ?hello (offered_tools sample_user) ''test-key''])
           \<and> (c = error_message \<or> c = trouble_message) \<and> c \<noteq> []"
    by (rule C4_fallback_reply [OF k1 ne, THEN conjunct1, THEN mp, OF f1])
  have h: "\<exists>c sess' log'.
         api_chat tools_then_failure new_session (JStr ''delete evt123'') []
           = ((sess', Json200 (plain_message Assistant (JStr c))), log')
       \<and> (c = error_message \<or> c = trouble_message) \<and> c \<noteq> []"
    by (rule C4_fallback_reply [OF k2 ne, THEN conjunct2, THEN mp, OF conjI [OF u f2]])
  have e1: "snd (fst (api_chat failing_llm new_session (JStr ''hello'') []))
       = Json200 (plain_message Assistant (JStr error_message))"
    by code_simp
  have e2: "map role (fst (run_exchange tools_then_failure sample_user
                       (opening_history new_session (JStr ''delete evt123'')) []))
       = [User, Assistant, Tool, Assistant]"
    by code_simp
  show ?thesis
    by (intro conjI) (rule k1, rule u, rule f1, rule g, rule e1, rule k2, rule f2, rule h, rule e2)
qed

section \<open>Malformed tool arguments\<close>

lemma get_prop_other:
  assumes "get_prop v k = Inr x"
  shows "get_prop v k' = Inr (opt_prop v k')"
  using assms by (cases v) (simp_all add: opt_prop_def)

lemma first_read_object [simp]: "first_read (JObj kvs) k m = m"
  by (simp add: first_read_def)

lemma api_chat_replies:
  assumes "session_user sess = Some u"
  shows "\<exists>sess' c log'. api_chat w sess msg log = ((sess', Json200 (plain_message Assistant c)), log')"
  using api_chat_run [OF assms, of w msg log] run_exchange_last [of w u "opening_history sess msg" log]
  by auto

text \<open>
  C9: an argument value that is falsy (null, undefined, empty) or that
  \<^verbatim>\<open>JSON.parse\<close> rejects is read as \<^verbatim>\<open>{}\<close>; the tool-call request is built all the
  same, the reads of its arguments in the tool loop cannot throw, and the exchange ends
  with an assistant message and status 200, as every exchange does.
\<close>

theorem C9_malformed_arguments:
  assumes "\<not> truthy a \<or> JSON_parse w (js_to_string a) = None"
  shows "safeParseJson w a = JObj []
       \<and> (\<forall>k m. first_read (safeParseJson w a) k m = m)
       \<and> (\<forall>call cid.
             get_prop call ''id'' = Inr cid
               \<and> opt_prop (opt_prop call ''function'') ''arguments'' = a \<longrightarrow>
             parse_tool_call w call =
               Inr \<lparr>tc_id = cid, tc_name = opt_prop (opt_prop call ''function'') ''name'',
                    tc_arguments = JObj []\<rparr>)
       \<and> (\<forall>sess u msg log.
             session_user sess = Some u \<longrightarrow>
             (\<exists>sess' c log'.
                api_chat w sess msg log = ((sess', Json200 (plain_message Assistant c)), log')))"
proof -
  have s: "safeParseJson w a = JObj []"
    using assms by (auto simp: safeParseJson_def)
  have p: "parse_tool_call w call =
               Inr \<lparr>tc_id = cid, tc_name = opt_prop (opt_prop call ''function'') ''name'',
                    tc_arguments = JObj []\<rparr>"
    if "get_prop call ''id'' = Inr cid" "opt_prop (opt_prop call ''function'') ''arguments'' = a"
    for call cid
    using that s get_prop_other [OF that(1), of "''function''"]
    by (simp add: parse_tool_call_def bind_e_def)
  show ?thesis using s p api_chat_replies by (simp add: first_read_def)
qed

theorem C9_witness:
  "JSON_parse malformed_arguments (js_to_string (JStr ''{not json'')) = None
   \<and> safeParseJson malformed_arguments (JStr ''{not json'') = JObj []
   \<and> safeParseJson malformed_arguments JNull = JObj []
   \<and> resp_toolCalls (fst (getChatResponse malformed_arguments
                             (opening_history new_session (JStr ''what is on today?''))
                             (offered_tools sample_user) []))
       = Some [sample_call ''call_1'' ''get_calendar_events'' (JObj [])]
   \<and> map (\<lambda>m. (role m, content m))
         (fst (run_exchange malformed_arguments sample_user
                 (opening_history new_session (JStr ''what is on today?'')) []))
       = [(User, JStr ''what is on today?''),
          (Assistant, JStr trouble_message),
          (Tool, JStr ''\"network unreachable\"''),
          (Assistant, JStr ''Done.'')]
   \<and> snd (fst (api_chat malformed_arguments new_session (JStr ''what is on today?'') []))
       = Json200 (plain_message Assistant (JStr ''Done.''))"
proof -
  have h: "JSON_parse malformed_arguments (js_to_string (JStr ''{not json'')) = None"
    by code_simp
  then have h': "\<not> truthy (JStr ''{not json'')
                 \<or> JSON_parse malformed_arguments (js_to_string (JStr ''{not json'')) = None"
    by simp
  have a: "safeParseJson malformed_arguments (JStr ''{not json'') = JObj []"
    using C9_malformed_arguments [OF h'] by blast
  have n': "\<not> truthy JNull \<or> JSON_parse malformed_arguments (js_to_string JNull) = None"
    by simp
  have b: "safeParseJson malformed_arguments JNull = JObj []"
    using C9_malformed_arguments [OF n'] by blast
  have c: "resp_toolCalls (fst (getChatResponse malformed_arguments
                             (opening_history new_session (JStr ''what is on today?''))
                             (offered_tools sample_user) []))
       = Some [sample_call ''call_1'' ''get_calendar_events'' (JObj [])]"
    by code_simp
  have d: "map (\<lambda>m. (role m, content m))
         (fst (run_exchange malformed_arguments sample_user
                 (opening_history new_session (JStr ''what is on today?'')) []))
       = [(User, JStr ''what is on today?''),
          (Assistant, JStr trouble_message),
          (Tool, JStr ''\"network unreachable\"''),
          (Assistant, JStr ''Done.'')]"
    by code_simp
  have e: "snd (fst (api_chat malformed_arguments new_session (JStr ''what is on today?'') []))
       = Json200 (plain_message Assistant (JStr ''Done.''))"
    by code_simp
  show ?thesis by (intro conjI) (rule h, rule a, rule b, rule c, rule d, rule e)
qed

section \<open>Truncation of the stored conversation\<close>

lemma suffix_drop_drop:
  assumes "n \<le> m"
  shows "suffix (drop m xs) (drop n xs)"
proof -
  have "drop m xs = drop (m - n) (drop n xs)"
    using assms by simp
  then show ?thesis by (metis suffix_drop)
qed

lemma slice_last_length: "length (slice_last n xs) = min n (length xs)"
  by (simp add: slice_last_def)

lemma slice_last_last:
  assumes "xs \<noteq> []" and "0 < n"
  shows "last (slice_last n xs) = last xs"
  using assms by (simp add: slice_last_def)

text \<open>
  C2, as stated, fails. One exchange with a tool call followed by four plain exchanges
  makes twelve turns; the last ten start with the tool turn of \<open>call_1\<close>, and the
  assistant turn that issued \<open>call_1\<close> is gone: no stored turn bears tool calls.
\<close>

theorem C2_slice_mid_round_counterexample:
  "map (\<lambda>m. (role m, tool_call_id m, truthy (tool_calls m)))
     (case session_messages
             (fst (chat_sequence delete_then_chat new_session
                     [JStr ''delete evt123'', JStr ''thanks'', JStr ''one'', JStr ''two'',
                      JStr ''three''] []))
      of Some ms \<Rightarrow> ms | None \<Rightarrow> [])
   = [(Tool, JStr ''call_1'', False),
      (Assistant, JUndef, False),
      (User, JUndef, False), (Assistant, JUndef, False),
      (User, JUndef, False), (Assistant, JUndef, False),
      (User, JUndef, False), (Assistant, JUndef, False),
      (User, JUndef, False), (Assistant, JUndef, False)]"
  by code_simp

text \<open>
  C2, amended: after every exchange the stored conversation is the last ten turns of
  the exchange's history, all of it when it is shorter, ending with the final
  assistant turn. The cut is by position alone. The assistant turn bearing the tool calls
  of the current exchange is kept with all of its tool turns when the reply asked for at
  most eight tools. When it asked for nine or more, what is stored is the last nine tool
  turns and the final assistant turn: the assistant turn bearing the tool calls is
  discarded.
\<close>

theorem C2_truncation:
  assumes "session_user sess = Some u"
      and "run_exchange w u (opening_history sess msg) log = (final, log')"
  shows "api_chat w sess msg log =
           ((sess\<lparr>session_messages := Some (slice_last 10 final)\<rparr>, Json200 (last final)), log')
       \<and> slice_last 10 final = drop (length final - 10) final
       \<and> length (slice_last 10 final) = min 10 (length final)
       \<and> suffix (slice_last 10 final) final
       \<and> last (slice_last 10 final) = last final
       \<and> role (last final) = Assistant
       \<and> (\<forall>first log1 tcs.
             getChatResponse w (opening_history sess msg) (offered_tools u) log = (first, log1)
               \<and> resp_toolCalls first = Some tcs \<and> tcs \<noteq> [] \<and> length tcs \<le> 8 \<longrightarrow>
             suffix (assistant_tool_message w (resp_content first) tcs
                       # map (tool_message w) (fst (handleToolCalls w (accessToken u) tcs log1))
                       @ [last final])
                    (slice_last 10 final))
       \<and> (\<forall>first log1 tcs.
             getChatResponse w (opening_history sess msg) (offered_tools u) log = (first, log1)
               \<and> resp_toolCalls first = Some tcs \<and> 9 \<le> length tcs \<longrightarrow>
             slice_last 10 final
               = drop (length tcs - 9)
                   (map (tool_message w) (fst (handleToolCalls w (accessToken u) tcs log1)))
                 @ [last final]
             \<and> map role (slice_last 10 final) = replicate 9 Tool @ [Assistant])"
proof -
  let ?msgs = "opening_history sess msg"
  have a: "api_chat w sess msg log =
           ((sess\<lparr>session_messages := Some (slice_last 10 final)\<rparr>, Json200 (last final)), log')"
    using api_chat_run [OF assms(1), of w msg log] assms(2) by simp
  from run_exchange_last [of w u ?msgs log] assms(2)
  obtain c where ne: "final \<noteq> []" and l: "last final = plain_message Assistant c"
    by auto
  have b: "slice_last 10 final = drop (length final - 10) final"
    by (simp add: slice_last_def)
  have d: "suffix (slice_last 10 final) final"
    unfolding b by (rule suffix_drop)
  have e: "last (slice_last 10 final) = last final"
    using slice_last_last [OF ne] by simp
  have f: "role (last final) = Assistant"
    using l by (simp add: plain_message_def)
  have g: "suffix (assistant_tool_message w (resp_content first) tcs
                     # map (tool_message w) (fst (handleToolCalls w (accessToken u) tcs log1))
                     @ [last final])
                  (slice_last 10 final)"
    if h: "getChatResponse w ?msgs (offered_tools u) log = (first, log1)"
      "resp_toolCalls first = Some tcs" "tcs \<noteq> []" "length tcs \<le> 8"
    for first log1 tcs
  proof -
    let ?round = "assistant_tool_message w (resp_content first) tcs
                     # map (tool_message w) (fst (handleToolCalls w (accessToken u) tcs log1))"
    from run_exchange_tools [OF h(1,2,3)] assms(2)
    obtain fin where fin: "final = ?msgs @ ?round @ [fin]"
      by auto
    then have lf: "last final = fin" by simp
    have len: "length final = length ?msgs + length tcs + 2"
      unfolding fin by (simp add: handleToolCalls_length)
    have dr: "drop (length ?msgs) final = ?round @ [last final]"
      unfolding lf by (simp add: fin)
    have "length final - 10 \<le> length ?msgs"
      using len h(4) by simp
    from suffix_drop_drop [OF this, where xs = final] show ?thesis
      unfolding b dr by simp
  qed
  have k: "slice_last 10 final
               = drop (length tcs - 9)
                   (map (tool_message w) (fst (handleToolCalls w (accessToken u) tcs log1)))
                 @ [last final]
             \<and> map role (slice_last 10 final) = replicate 9 Tool @ [Assistant]"
    if h: "getChatResponse w ?msgs (offered_tools u) log = (first, log1)"
      "resp_toolCalls first = Some tcs" "9 \<le> length tcs"
    for first log1 tcs
  proof -
    let ?a = "assistant_tool_message w (resp_content first) tcs"
    let ?ts = "map (tool_message w) (fst (handleToolCalls w (accessToken u) tcs log1))"
    have "tcs \<noteq> []" using h(3) by auto
    from run_exchange_tools [OF h(1,2) this] assms(2)
    obtain fin where fin: "final = ?msgs @ ?a # ?ts @ [fin]"
      by auto
    then have lf: "last final = fin" by simp
    have lts: "length ?ts = length tcs"
      by (simp add: handleToolCalls_length)
    have "length final - 10 = length ?msgs + (1 + (length tcs - 9))"
      unfolding fin using lts h(3) by simp
    then have "slice_last 10 final = drop (length ?msgs + (1 + (length tcs - 9))) final"
      by (simp add: slice_last_def)
    also have "\<dots> = drop (length tcs - 9) (?ts @ [fin])"
      unfolding fin by (simp only: drop_append) simp
    also have "\<dots> = drop (length tcs - 9) ?ts @ [fin]"
      using lts h(3) by simp
    finally have s: "slice_last 10 final = drop (length tcs - 9) ?ts @ [last final]"
      unfolding lf .
    have "map role (drop (length tcs - 9) ?ts) = replicate 9 Tool"
      using lts h(3) by (simp add: drop_map map_replicate_const comp_def)
    then have "map role (slice_last 10 final) = replicate 9 Tool @ [Assistant]"
      unfolding s using f by (simp del: replicate_Suc)
    with s show ?thesis by simp
  qed
  show ?thesis
    using a b slice_last_length [of 10 final] d e f g k by blast
qed

text \<open>
  Two runs. In the first the session already holds eight turns when the model asks for
  one deletion: the exchange makes twelve turns, the two oldest are discarded, and the
  round of the exchange is stored whole. In the second the model asks for nine tools at
  once on a new session: of the twelve turns the user's message and the assistant turn
  bearing the nine tool calls are discarded.
\<close>

theorem C2_witness:
  "session_user busy_session = Some sample_user
   \<and> resp_toolCalls (fst (getChatResponse chat_then_delete
                             (opening_history busy_session (JStr ''delete evt123''))
                             (offered_tools sample_user) busy_log))
       = Some [sample_call ''call_1'' ''delete_calendar_event'' (JObj [(''event_id'', JStr ''evt123'')])]
   \<and> length (fst busy_exchange) = 12
   \<and> suffix (assistant_tool_message chat_then_delete
                (resp_content (fst (getChatResponse chat_then_delete
                                      (opening_history busy_session (JStr ''delete evt123''))
                                      (offered_tools sample_user) busy_log)))
                [sample_call ''call_1'' ''delete_calendar_event'' (JObj [(''event_id'', JStr ''evt123'')])]
              # map (tool_message chat_then_delete)
                  (fst (handleToolCalls chat_then_delete (accessToken sample_user)
                          [sample_call ''call_1'' ''delete_calendar_event''
                             (JObj [(''event_id'', JStr ''evt123'')])]
                          (snd (getChatResponse chat_then_delete
                                  (opening_history busy_session (JStr ''delete evt123''))
                                  (offered_tools sample_user) busy_log))))
              @ [last (fst busy_exchange)])
            (slice_last 10 (fst busy_exchange))
   \<and> map (\<lambda>m. (role m, truthy (tool_calls m))) (slice_last 10 (fst busy_exchange))
       = [(User, False), (Assistant, False), (User, False), (Assistant, False),
          (User, False), (Assistant, False), (User, False), (Assistant, True),
          (Tool, False), (Assistant, False)]
   \<and> session_user new_session = Some sample_user
   \<and> map tc_id (case resp_toolCalls (fst (getChatResponse nine_calls
                                            (opening_history new_session (JStr ''try everything''))
                                            (offered_tools sample_user) []))
                 of Some tcs \<Rightarrow> tcs | None \<Rightarrow> [])
       = map JStr [''c1'', ''c2'', ''c3'', ''c4'', ''c5'', ''c6'', ''c7'', ''c8'', ''c9'']
   \<and> length (fst nine_exchange) = 12
   \<and> map role (slice_last 10 (fst nine_exchange)) = replicate 9 Tool @ [Assistant]
   \<and> map (\<lambda>m. (role m, tool_call_id m, truthy (tool_calls m))) (slice_last 10 (fst nine_exchange))
       = [(Tool, JStr ''c1'', False), (Tool, JStr ''c2'', False), (Tool, JStr ''c3'', False),
          (Tool, JStr ''c4'', False), (Tool, JStr ''c5'', False), (Tool, JStr ''c6'', False),
          (Tool, JStr ''c7'', False), (Tool, JStr ''c8'', False), (Tool, JStr ''c9'', False),
          (Assistant, JUndef, False)]"
proof -
  let ?m1 = "opening_history busy_session (JStr ''delete evt123'')"
  let ?g1 = "getChatResponse chat_then_delete ?m1 (offered_tools sample_user) busy_log"
  let ?tcs1 = "[sample_call ''call_1'' ''delete_calendar_event'' (JObj [(''event_id'', JStr ''evt123'')])]"
  let ?m2 = "opening_history new_session (JStr ''try everything'')"
  let ?g2 = "getChatResponse nine_calls ?m2 (offered_tools sample_user) []"
  have u1: "session_user busy_session = Some sample_user"
    by code_simp
  have r1: "run_exchange chat_then_delete sample_user ?m1 busy_log
              = (fst busy_exchange, snd busy_exchange)"
    by (simp add: busy_exchange_def)
  have t1: "resp_toolCalls (fst ?g1) = Some ?tcs1"
    by code_simp
  have l1: "length (fst busy_exchange) = 12"
    by code_simp
  have "?g1 = (fst ?g1, snd ?g1) \<and> resp_toolCalls (fst ?g1) = Some ?tcs1
          \<and> ?tcs1 \<noteq> [] \<and> length ?tcs1 \<le> 8"
    using t1 by simp
  with C2_truncation [OF u1 r1]
  have s1: "suffix (assistant_tool_message chat_then_delete (resp_content (fst ?g1)) ?tcs1
              # map (tool_message chat_then_delete)
                  (fst (handleToolCalls chat_then_delete (accessToken sample_user) ?tcs1 (snd ?g1)))
              @ [last (fst busy_exchange)])
            (slice_last 10 (fst busy_exchange))"
    by blast
  have e1: "map (\<lambda>m. (role m, truthy (tool_calls m))) (slice_last 10 (fst busy_exchange))
       = [(User, False), (Assistant, False), (User, False), (Assistant, False),
          (User, False), (Assistant, False), (User, False), (Assistant, True),
          (Tool, False), (Assistant, False)]"
    by code_simp
  have u2: "session_user new_session = Some sample_user"
    by (simp add: new_session_def)
  have r2: "run_exchange nine_calls sample_user ?m2 [] = (fst nine_exchange, snd nine_exchange)"
    by (simp add: nine_exchange_def)
  have t2: "map tc_id (case resp_toolCalls (fst ?g2) of Some tcs \<Rightarrow> tcs | None \<Rightarrow> [])
       = map JStr [''c1'', ''c2'', ''c3'', ''c4'', ''c5'', ''c6'', ''c7'', ''c8'', ''c9'']"
    by code_simp
  then obtain tcs2 where tcs2: "resp_toolCalls (fst ?g2) = Some tcs2" "length tcs2 = 9"
    by (cases "resp_toolCalls (fst ?g2)") (auto dest: arg_cong [where f = length])
  have l2: "length (fst nine_exchange) = 12"
    by code_simp
  have "?g2 = (fst ?g2, snd ?g2) \<and> resp_toolCalls (fst ?g2) = Some tcs2 \<and> 9 \<le> length tcs2"
    using tcs2 by simp
  with C2_truncation [OF u2 r2]
  have s2: "map role (slice_last 10 (fst nine_exchange)) = replicate 9 Tool @ [Assistant]"
    by blast
  have e2: "map (\<lambda>m. (role m, tool_call_id m, truthy (tool_calls m))) (slice_last 10 (fst nine_exchange))
       = [(Tool, JStr ''c1'', False), (Tool, JStr ''c2'', False), (Tool, JStr ''c3'', False),
          (Tool, JStr ''c4'', False), (Tool, JStr ''c5'', False), (Tool, JStr ''c6'', False),
          (Tool, JStr ''c7'', False), (Tool, JStr ''c8'', False), (Tool, JStr ''c9'', False),
          (Assistant, JUndef, False)]"
    by code_simp
  show ?thesis
    by (intro conjI)
       (rule u1, rule t1, rule l1, rule s1, rule e1, rule u2, rule t2, rule l2, rule s2, rule e2)
qed

end
